theory Spec2Isabelle
  imports Complex_Main "HOL-Library.Word"
begin

unbundle bit_operations_syntax

section \<open>The mapper registry (Mapper.cpp, class MapperRegistry)\<close>

text \<open>
  The registry maps mapper names to mapper objects. A mapper object is referred to by
  its address (\<^verbatim>\<open>const Mapper*\<close>); addresses are values of an arbitrary type \<open>'p\<close>, and a
  possibly-null pointer is a \<open>'p option\<close> with \<open>None\<close> for \<^verbatim>\<open>nullptr\<close>. Names
  (\<^verbatim>\<open>std::wstring_view\<close>, compared by content) are strings; the empty view is \<open>[]\<close>.
\<close>

record 'p MapperRegistry =
  knownMappers :: "string \<rightharpoonup> 'p"
  defaultMapper :: string

text \<open>The singleton starts out default-constructed: no mappers, empty default name.\<close>

definition MapperRegistry_initial :: "'p MapperRegistry" where
  "MapperRegistry_initial = \<lparr>knownMappers = Map.empty, defaultMapper = []\<rparr>"

definition RegisterMapper :: "string \<Rightarrow> 'p \<Rightarrow> 'p MapperRegistry \<Rightarrow> 'p MapperRegistry" where
  "RegisterMapper name object r =
     (if name = [] then r
      else
        let r1 = r\<lparr>knownMappers := (knownMappers r)(name \<mapsto> object)\<rparr>
        in if defaultMapper r1 = [] then r1\<lparr>defaultMapper := name\<rparr> else r1)"

definition UnregisterMapper :: "string \<Rightarrow> 'p \<Rightarrow> 'p MapperRegistry \<Rightarrow> 'p MapperRegistry" where
  "UnregisterMapper name object r =
     (if name = [] then r
      else if knownMappers r name = None then r
      else if Some object \<noteq> knownMappers r name then r
      else
        let r1 = r\<lparr>knownMappers := (knownMappers r)(name := None)\<rparr>
        in if defaultMapper r1 = name then r1\<lparr>defaultMapper := []\<rparr> else r1)"

definition GetMapper :: "'p MapperRegistry \<Rightarrow> string \<Rightarrow> 'p option" where
  "GetMapper r mapperName =
     (let mapperName = (if mapperName = [] then defaultMapper r else mapperName)
      in knownMappers r mapperName)"

text \<open>
  The constructor of a named \<^verbatim>\<open>Mapper\<close> registers the new object (\<^verbatim>\<open>this\<close>) under its
  name, the destructor unregisters it; anonymous mappers touch the registry in neither.
\<close>

definition Mapper_construct :: "string \<Rightarrow> 'p \<Rightarrow> 'p MapperRegistry \<Rightarrow> 'p MapperRegistry" where
  "Mapper_construct name this r = (if name \<noteq> [] then RegisterMapper name this r else r)"

definition Mapper_destroy :: "string \<Rightarrow> 'p \<Rightarrow> 'p MapperRegistry \<Rightarrow> 'p MapperRegistry" where
  "Mapper_destroy name this r = (if name \<noteq> [] then UnregisterMapper name this r else r)"

text \<open>A history of the registry: mappers constructed and destroyed, in order.\<close>

datatype 'p registry_event = Construct string 'p | Destroy string 'p

fun apply_event :: "'p registry_event \<Rightarrow> 'p MapperRegistry \<Rightarrow> 'p MapperRegistry" where
  "apply_event (Construct name this) r = Mapper_construct name this r"
| "apply_event (Destroy name this) r = Mapper_destroy name this r"

definition run_events :: "'p registry_event list \<Rightarrow> 'p MapperRegistry \<Rightarrow> 'p MapperRegistry" where
  "run_events evs r = fold apply_event evs r"

text \<open>Registrations only: the mappers \<open>(name, object)\<close> are registered from left to right.\<close>

definition register_all :: "(string \<times> 'p) list \<Rightarrow> 'p MapperRegistry \<Rightarrow> 'p MapperRegistry" where
  "register_all regs r = fold (\<lambda>(name, object). RegisterMapper name object) regs r"

section \<open>Configured mappers (Mapper.cpp, Mapper::GetConfigured)\<close>

text \<open>
  \<^verbatim>\<open>Mapper::GetByName\<close> asks the registry. \<^verbatim>\<open>Mapper::GetNull\<close> returns the address of a
  function-local static anonymous mapper; that address is the parameter \<open>kNullMapper\<close>.
\<close>

definition GetByName :: "'p MapperRegistry \<Rightarrow> string \<Rightarrow> 'p option" where
  "GetByName r mapperName = GetMapper r mapperName"

definition GetNull :: "'p \<Rightarrow> 'p option" where
  "GetNull kNullMapper = Some kNullMapper"

text \<open>
  Modelled from the spec: \<^verbatim>\<open>Mapper::GetDefault\<close> is declared in Mapper.h, which is not
  among the sources. The spec says that lookup-by-name returns the default mapper when
  given an empty name, so the default mapper is the lookup of the empty name.
\<close>

definition GetDefault :: "'p MapperRegistry \<Rightarrow> 'p option" where
  "GetDefault r = GetByName r []"

text \<open>
  Modelled from the spec: the configuration data source (Configuration.h is not among
  the sources) supplies, per physical controller slot, an optional mapper name. What
  \<^verbatim>\<open>GetConfigured\<close> reads of it is whether the mapper section exists and, inside it, the
  controller-independent type setting and the per-controller type settings, each either
  absent or a string.
\<close>

record MapperSection =
  mapperType :: "string option"
  mapperTypeForController :: "nat \<Rightarrow> string option"

record ConfigurationData =
  mapperSection :: "MapperSection option"

text \<open>\<^verbatim>\<open>XUSER_MAX_COUNT\<close> of xinput.h.\<close>

definition kPhysicalControllerCount :: nat where
  "kPhysicalControllerCount = 4"

text \<open>
  The body run under \<^verbatim>\<open>std::call_once\<close>: it fills the static array
  \<^verbatim>\<open>configuredMapper\<close>, one pointer per physical controller.
\<close>

definition InitializeConfiguredMappers ::
  "ConfigurationData \<Rightarrow> 'p MapperRegistry \<Rightarrow> 'p \<Rightarrow> 'p option list" where
  "InitializeConfiguredMappers configData r kNullMapper =
     (case mapperSection configData of
        Some mapperConfigData \<Rightarrow>
          let fallbackMapper0 =
                (case mapperType mapperConfigData of
                   Some fallbackMapperName \<Rightarrow> GetByName r fallbackMapperName
                 | None \<Rightarrow> None);
              fallbackMapper =
                (if fallbackMapper0 = None
                 then (let d = GetDefault r in if d = None then GetNull kNullMapper else d)
                 else fallbackMapper0)
          in map (\<lambda>i.
                   case mapperTypeForController mapperConfigData i of
                     Some configuredMapperName \<Rightarrow>
                       (let m = GetByName r configuredMapperName
                        in if m = None then fallbackMapper else m)
                   | None \<Rightarrow> fallbackMapper)
                 [0 ..< kPhysicalControllerCount]
      | None \<Rightarrow>
          let d = GetDefault r;
              defaultMapper = (if d = None then GetNull kNullMapper else d)
          in map (\<lambda>i. defaultMapper) [0 ..< kPhysicalControllerCount])"

text \<open>
  \<^verbatim>\<open>GetConfigured\<close> with its static state made explicit: \<open>cache\<close> is \<open>None\<close> until
  the once-flag has fired and holds the array afterwards. The result is the pointer
  returned and the static state after the call.
\<close>

definition GetConfigured ::
  "ConfigurationData \<Rightarrow> 'p MapperRegistry \<Rightarrow> 'p \<Rightarrow> 'p option list option \<Rightarrow> nat
     \<Rightarrow> 'p option \<times> 'p option list option" where
  "GetConfigured configData r kNullMapper cache controllerIdentifier =
     (let configuredMapper =
            (case cache of
               None \<Rightarrow> InitializeConfiguredMappers configData r kNullMapper
             | Some c \<Rightarrow> c)
      in if controllerIdentifier \<ge> kPhysicalControllerCount
         then (GetNull kNullMapper, Some configuredMapper)
         else (configuredMapper ! controllerIdentifier, Some configuredMapper))"

text \<open>
  The fallback chain in the words of the amended claim C9: the name configured for the
  slot if it resolves, else the controller-independent type setting if it resolves,
  else the registry's default mapper, else the null mapper.
\<close>

definition resolve_name :: "'p MapperRegistry \<Rightarrow> string option \<Rightarrow> 'p option" where
  "resolve_name r name = (case name of None \<Rightarrow> None | Some n \<Rightarrow> GetByName r n)"

definition first_present :: "'p option list \<Rightarrow> 'p \<Rightarrow> 'p" where
  "first_present candidates otherwise =
     (case List.map_filter id candidates of [] \<Rightarrow> otherwise | m # _ \<Rightarrow> m)"

definition configured_fallback_chain ::
  "ConfigurationData \<Rightarrow> 'p MapperRegistry \<Rightarrow> 'p \<Rightarrow> nat \<Rightarrow> 'p" where
  "configured_fallback_chain configData r kNullMapper slot =
     (case mapperSection configData of
        Some sec \<Rightarrow>
          first_present
            [resolve_name r (mapperTypeForController sec slot),
             resolve_name r (mapperType sec),
             GetDefault r] kNullMapper
      | None \<Rightarrow> first_present [GetDefault r] kNullMapper)"

section \<open>Controller types (ControllerTypes.h)\<close>

text \<open>
  The scoped enumerations, without their \<^verbatim>\<open>Count\<close> sentinels: a sentinel is the number
  of enumerators, kept as an integer constant, and the cast \<^verbatim>\<open>(int)\<close> of an enumerator is
  a function.
\<close>

text \<open>
  Fixed-width integers are words; a signed one is read with \<open>sint\<close>, an unsigned one
  with \<open>uint\<close> or \<open>unat\<close>.
\<close>

type_synonym int16_t = "16 word"
type_synonym int32_t = "32 word"
type_synonym uint8_t = "8 word"
type_synonym uint16_t = "16 word"

datatype EAxis = EAxis_X | EAxis_Y | EAxis_Z | EAxis_RotX | EAxis_RotY | EAxis_RotZ

datatype EAxisDirection = EAxisDirection_Both | EAxisDirection_Positive | EAxisDirection_Negative

datatype EButton =
    EButton_B1 | EButton_B2 | EButton_B3 | EButton_B4
  | EButton_B5 | EButton_B6 | EButton_B7 | EButton_B8
  | EButton_B9 | EButton_B10 | EButton_B11 | EButton_B12
  | EButton_B13 | EButton_B14 | EButton_B15 | EButton_B16

datatype EPovDirection =
  EPovDirection_Up | EPovDirection_Down | EPovDirection_Left | EPovDirection_Right

fun int_of_EAxis :: "EAxis \<Rightarrow> int" where
  "int_of_EAxis EAxis_X = 0"
| "int_of_EAxis EAxis_Y = 1"
| "int_of_EAxis EAxis_Z = 2"
| "int_of_EAxis EAxis_RotX = 3"
| "int_of_EAxis EAxis_RotY = 4"
| "int_of_EAxis EAxis_RotZ = 5"

definition EAxis_Count :: int where
  "EAxis_Count = 6"

fun int_of_EButton :: "EButton \<Rightarrow> int" where
  "int_of_EButton EButton_B1 = 0"
| "int_of_EButton EButton_B2 = 1"
| "int_of_EButton EButton_B3 = 2"
| "int_of_EButton EButton_B4 = 3"
| "int_of_EButton EButton_B5 = 4"
| "int_of_EButton EButton_B6 = 5"
| "int_of_EButton EButton_B7 = 6"
| "int_of_EButton EButton_B8 = 7"
| "int_of_EButton EButton_B9 = 8"
| "int_of_EButton EButton_B10 = 9"
| "int_of_EButton EButton_B11 = 10"
| "int_of_EButton EButton_B12 = 11"
| "int_of_EButton EButton_B13 = 12"
| "int_of_EButton EButton_B14 = 13"
| "int_of_EButton EButton_B15 = 14"
| "int_of_EButton EButton_B16 = 15"

definition EButton_Count :: int where
  "EButton_Count = 16"

text \<open>All axes in ascending order of their enumerator values.\<close>

definition EAxis_values :: "EAxis list" where
  "EAxis_values = [EAxis_X, EAxis_Y, EAxis_Z, EAxis_RotX, EAxis_RotY, EAxis_RotZ]"

definition kAnalogValueMax :: int where
  "kAnalogValueMax = 32767"

definition kAnalogValueMin :: int where
  "kAnalogValueMin = - kAnalogValueMax"

text \<open>
  \<^verbatim>\<open>SElementIdentifier\<close> is a type tag with a union of an axis and a button: a datatype
  with the payload under the tag that selects it.
\<close>

datatype SElementIdentifier =
    Element_Axis EAxis
  | Element_Button EButton
  | Element_Pov
  | Element_WholeController

text \<open>
  \<^verbatim>\<open>SState\<close>: the arrays \<^verbatim>\<open>axis\<close> (\<^verbatim>\<open>int32_t\<close>, one entry per axis), \<^verbatim>\<open>button\<close> (a
  bitset) and the POV components, each indexed by its enumeration.
\<close>

record SState =
  axis :: "EAxis \<Rightarrow> int32_t"
  button :: "EButton \<Rightarrow> bool"
  povDirection :: "EPovDirection \<Rightarrow> bool"

text \<open>The value-initialised state \<^verbatim>\<open>SState controllerState = {}\<close>.\<close>

definition SState_zero :: SState where
  "SState_zero = \<lparr>axis = (\<lambda>a. 0), button = (\<lambda>b. False), povDirection = (\<lambda>d. False)\<rparr>"

text \<open>\<^verbatim>\<open>XINPUT_GAMEPAD\<close> of xinput.h, with the button masks of \<^verbatim>\<open>wButtons\<close>.\<close>

record XINPUT_GAMEPAD =
  wButtons :: uint16_t
  bLeftTrigger :: uint8_t
  bRightTrigger :: uint8_t
  sThumbLX :: int16_t
  sThumbLY :: int16_t
  sThumbRX :: int16_t
  sThumbRY :: int16_t

definition XINPUT_GAMEPAD_DPAD_UP :: uint16_t where "XINPUT_GAMEPAD_DPAD_UP = 0x0001"
definition XINPUT_GAMEPAD_DPAD_DOWN :: uint16_t where "XINPUT_GAMEPAD_DPAD_DOWN = 0x0002"
definition XINPUT_GAMEPAD_DPAD_LEFT :: uint16_t where "XINPUT_GAMEPAD_DPAD_LEFT = 0x0004"
definition XINPUT_GAMEPAD_DPAD_RIGHT :: uint16_t where "XINPUT_GAMEPAD_DPAD_RIGHT = 0x0008"
definition XINPUT_GAMEPAD_START :: uint16_t where "XINPUT_GAMEPAD_START = 0x0010"
definition XINPUT_GAMEPAD_BACK :: uint16_t where "XINPUT_GAMEPAD_BACK = 0x0020"
definition XINPUT_GAMEPAD_LEFT_THUMB :: uint16_t where "XINPUT_GAMEPAD_LEFT_THUMB = 0x0040"
definition XINPUT_GAMEPAD_RIGHT_THUMB :: uint16_t where "XINPUT_GAMEPAD_RIGHT_THUMB = 0x0080"
definition XINPUT_GAMEPAD_LEFT_SHOULDER :: uint16_t where "XINPUT_GAMEPAD_LEFT_SHOULDER = 0x0100"
definition XINPUT_GAMEPAD_RIGHT_SHOULDER :: uint16_t where "XINPUT_GAMEPAD_RIGHT_SHOULDER = 0x0200"
definition XINPUT_GAMEPAD_A :: uint16_t where "XINPUT_GAMEPAD_A = 0x1000"
definition XINPUT_GAMEPAD_B :: uint16_t where "XINPUT_GAMEPAD_B = 0x2000"
definition XINPUT_GAMEPAD_X :: uint16_t where "XINPUT_GAMEPAD_X = 0x4000"
definition XINPUT_GAMEPAD_Y :: uint16_t where "XINPUT_GAMEPAD_Y = 0x8000"

section \<open>Element mappers (ElementMapper.h, interface IElementMapper)\<close>

text \<open>
  An element mapper is an object behind the interface \<^verbatim>\<open>IElementMapper\<close>; the bodies of
  its virtual methods are in ElementMapper.cpp, which is not among the sources. An
  element mapper is therefore its method table, and every property below holds for all
  method bodies. A method that takes \<^verbatim>\<open>SState&\<close> is a function from the state before to
  the state after.
\<close>

record IElementMapper =
  ContributeFromAnalogValue :: "SState \<Rightarrow> int16_t \<Rightarrow> SState"
  ContributeFromButtonValue :: "SState \<Rightarrow> bool \<Rightarrow> SState"
  ContributeFromTriggerValue :: "SState \<Rightarrow> uint8_t \<Rightarrow> SState"
  ContributeNeutral :: "SState \<Rightarrow> SState"
  GetTargetElementCount :: int
  GetTargetElementAt :: "int \<Rightarrow> SElementIdentifier option"

text \<open>
  Modelled from the spec: \<^verbatim>\<open>Mapper::UElementMap\<close> is declared in Mapper.h, which is not
  among the sources. It is one element-mapper slot per physical element, each possibly
  absent (\<^verbatim>\<open>nullptr\<close>), reached by name (\<^verbatim>\<open>named\<close>) or as the array \<^verbatim>\<open>all\<close> of the same
  slots. The slot names are those \<^verbatim>\<open>MapStatePhysicalToVirtual\<close> uses.
\<close>

record SElementMap =
  stickLeftX :: "IElementMapper option"
  stickLeftY :: "IElementMapper option"
  stickRightX :: "IElementMapper option"
  stickRightY :: "IElementMapper option"
  dpadUp :: "IElementMapper option"
  dpadDown :: "IElementMapper option"
  dpadLeft :: "IElementMapper option"
  dpadRight :: "IElementMapper option"
  triggerLT :: "IElementMapper option"
  triggerRT :: "IElementMapper option"
  buttonA :: "IElementMapper option"
  buttonB :: "IElementMapper option"
  buttonX :: "IElementMapper option"
  buttonY :: "IElementMapper option"
  buttonLB :: "IElementMapper option"
  buttonRB :: "IElementMapper option"
  buttonBack :: "IElementMapper option"
  buttonStart :: "IElementMapper option"
  buttonLS :: "IElementMapper option"
  buttonRS :: "IElementMapper option"

definition SElementMap_all :: "SElementMap \<Rightarrow> IElementMapper option list" where
  "SElementMap_all elements =
     [stickLeftX elements, stickLeftY elements, stickRightX elements, stickRightY elements,
      dpadUp elements, dpadDown elements, dpadLeft elements, dpadRight elements,
      triggerLT elements, triggerRT elements,
      buttonA elements, buttonB elements, buttonX elements, buttonY elements,
      buttonLB elements, buttonRB elements, buttonBack elements, buttonStart elements,
      buttonLS elements, buttonRS elements]"

text \<open>The element map with every slot absent.\<close>

definition SElementMap_empty :: SElementMap where
  "SElementMap_empty =
     \<lparr>stickLeftX = None, stickLeftY = None, stickRightX = None, stickRightY = None,
      dpadUp = None, dpadDown = None, dpadLeft = None, dpadRight = None,
      triggerLT = None, triggerRT = None,
      buttonA = None, buttonB = None, buttonX = None, buttonY = None,
      buttonLB = None, buttonRB = None, buttonBack = None, buttonStart = None,
      buttonLS = None, buttonRS = None\<rparr>"

section \<open>Physical to virtual state (Mapper.cpp, Mapper::MapStatePhysicalToVirtual)\<close>

text \<open>
  The comparisons of \<^verbatim>\<open>FilterAnalogStickValue\<close> are made on the promoted \<^verbatim>\<open>int\<close> value of
  the \<^verbatim>\<open>int16_t\<close> argument; the result is converted back to \<^verbatim>\<open>int16_t\<close>.
\<close>

definition FilterAnalogStickValue :: "int16_t \<Rightarrow> int16_t" where
  "FilterAnalogStickValue analogValue =
     (if sint analogValue > kAnalogValueMax then word_of_int kAnalogValueMax
      else if sint analogValue < kAnalogValueMin then word_of_int kAnalogValueMin
      else analogValue)"

definition FilterAndInvertAnalogStickValue :: "int16_t \<Rightarrow> int16_t" where
  "FilterAndInvertAnalogStickValue analogValue =
     word_of_int (- sint (FilterAnalogStickValue analogValue))"

text \<open>The guarded calls \<^verbatim>\<open>if (nullptr != m) m->ContributeFrom...(controllerState, v)\<close>.\<close>

definition contribute_analog :: "IElementMapper option \<Rightarrow> int16_t \<Rightarrow> SState \<Rightarrow> SState" where
  "contribute_analog m v controllerState =
     (case m of None \<Rightarrow> controllerState
      | Some em \<Rightarrow> ContributeFromAnalogValue em controllerState v)"

definition contribute_button :: "IElementMapper option \<Rightarrow> bool \<Rightarrow> SState \<Rightarrow> SState" where
  "contribute_button m v controllerState =
     (case m of None \<Rightarrow> controllerState
      | Some em \<Rightarrow> ContributeFromButtonValue em controllerState v)"

definition contribute_trigger :: "IElementMapper option \<Rightarrow> uint8_t \<Rightarrow> SState \<Rightarrow> SState" where
  "contribute_trigger m v controllerState =
     (case m of None \<Rightarrow> controllerState
      | Some em \<Rightarrow> ContributeFromTriggerValue em controllerState v)"

text \<open>The four stick statements, in source order.\<close>

definition contribute_sticks :: "SElementMap \<Rightarrow> XINPUT_GAMEPAD \<Rightarrow> SState \<Rightarrow> SState" where
  "contribute_sticks elements physicalState =
     contribute_analog (stickRightY elements) (FilterAndInvertAnalogStickValue (sThumbRY physicalState))
     \<circ> contribute_analog (stickRightX elements) (FilterAnalogStickValue (sThumbRX physicalState))
     \<circ> contribute_analog (stickLeftY elements) (FilterAndInvertAnalogStickValue (sThumbLY physicalState))
     \<circ> contribute_analog (stickLeftX elements) (FilterAnalogStickValue (sThumbLX physicalState))"

text \<open>The d-pad, trigger and button statements, in source order (the first one innermost).\<close>

definition contribute_buttons_and_triggers ::
  "SElementMap \<Rightarrow> XINPUT_GAMEPAD \<Rightarrow> SState \<Rightarrow> SState" where
  "contribute_buttons_and_triggers elements physicalState =
     contribute_button (buttonRS elements) (wButtons physicalState AND XINPUT_GAMEPAD_RIGHT_THUMB \<noteq> 0)
     \<circ> contribute_button (buttonLS elements) (wButtons physicalState AND XINPUT_GAMEPAD_LEFT_THUMB \<noteq> 0)
     \<circ> contribute_button (buttonStart elements) (wButtons physicalState AND XINPUT_GAMEPAD_START \<noteq> 0)
     \<circ> contribute_button (buttonBack elements) (wButtons physicalState AND XINPUT_GAMEPAD_BACK \<noteq> 0)
     \<circ> contribute_button (buttonRB elements) (wButtons physicalState AND XINPUT_GAMEPAD_RIGHT_SHOULDER \<noteq> 0)
     \<circ> contribute_button (buttonLB elements) (wButtons physicalState AND XINPUT_GAMEPAD_LEFT_SHOULDER \<noteq> 0)
     \<circ> contribute_button (buttonY elements) (wButtons physicalState AND XINPUT_GAMEPAD_Y \<noteq> 0)
     \<circ> contribute_button (buttonX elements) (wButtons physicalState AND XINPUT_GAMEPAD_X \<noteq> 0)
     \<circ> contribute_button (buttonB elements) (wButtons physicalState AND XINPUT_GAMEPAD_B \<noteq> 0)
     \<circ> contribute_button (buttonA elements) (wButtons physicalState AND XINPUT_GAMEPAD_A \<noteq> 0)
     \<circ> contribute_trigger (triggerRT elements) (bRightTrigger physicalState)
     \<circ> contribute_trigger (triggerLT elements) (bLeftTrigger physicalState)
     \<circ> contribute_button (dpadRight elements) (wButtons physicalState AND XINPUT_GAMEPAD_DPAD_RIGHT \<noteq> 0)
     \<circ> contribute_button (dpadLeft elements) (wButtons physicalState AND XINPUT_GAMEPAD_DPAD_LEFT \<noteq> 0)
     \<circ> contribute_button (dpadDown elements) (wButtons physicalState AND XINPUT_GAMEPAD_DPAD_DOWN \<noteq> 0)
     \<circ> contribute_button (dpadUp elements) (wButtons physicalState AND XINPUT_GAMEPAD_DPAD_UP \<noteq> 0)"

text \<open>The closing loop over \<^verbatim>\<open>controllerState.axis\<close>.\<close>

definition saturate_axis_value :: "int32_t \<Rightarrow> int32_t" where
  "saturate_axis_value axisValue =
     (if sint axisValue > kAnalogValueMax then word_of_int kAnalogValueMax
      else if sint axisValue < kAnalogValueMin then word_of_int kAnalogValueMin
      else axisValue)"

definition saturate_axes :: "SState \<Rightarrow> SState" where
  "saturate_axes controllerState =
     controllerState\<lparr>axis := (\<lambda>a. saturate_axis_value (axis controllerState a))\<rparr>"

definition MapStatePhysicalToVirtual :: "SElementMap \<Rightarrow> XINPUT_GAMEPAD \<Rightarrow> SState" where
  "MapStatePhysicalToVirtual elements physicalState =
     saturate_axes
       (contribute_buttons_and_triggers elements physicalState
         (contribute_sticks elements physicalState SState_zero))"

text \<open>
  The stick value of the claims, on integers: the reading saturated into the symmetric
  range.
\<close>

definition saturated_reading :: "int16_t \<Rightarrow> int" where
  "saturated_reading v = max (- 32767) (min 32767 (sint v))"

text \<open>
  Sample inputs: an element mapper that records the analog value it is given in the X
  axis of the state, and a gamepad reading with only the left stick displaced.
\<close>

definition recording_mapper :: IElementMapper where
  "recording_mapper =
     \<lparr>ContributeFromAnalogValue = (\<lambda>s v. s\<lparr>axis := (axis s)(EAxis_X := word_of_int (sint v))\<rparr>),
      ContributeFromButtonValue = (\<lambda>s v. s),
      ContributeFromTriggerValue = (\<lambda>s v. s),
      ContributeNeutral = (\<lambda>s. s),
      GetTargetElementCount = 1,
      GetTargetElementAt = (\<lambda>j. Some (Element_Axis EAxis_X))\<rparr>"

definition gamepad_with_left_stick :: "int16_t \<Rightarrow> int16_t \<Rightarrow> XINPUT_GAMEPAD" where
  "gamepad_with_left_stick x y =
     \<lparr>wButtons = 0, bLeftTrigger = 0, bRightTrigger = 0,
      sThumbLX = x, sThumbLY = y, sThumbRX = 0, sThumbRY = 0\<rparr>"

section \<open>Capabilities (ControllerTypes.h, SCapabilities)\<close>

record SAxisCapabilities =
  type :: EAxis
  supportsForceFeedback :: bool

text \<open>
  \<^verbatim>\<open>SCapabilities\<close>: the array \<^verbatim>\<open>axisCapabilities\<close> of \<^verbatim>\<open>EAxis::Count\<close> entries, of which the
  first \<^verbatim>\<open>numAxes\<close> are valid, and the bit-fields \<^verbatim>\<open>numAxes\<close> (3 bits) and \<^verbatim>\<open>numButtons\<close>
  (5 bits).
\<close>

record SCapabilities =
  axisCapabilities :: "SAxisCapabilities list"
  numAxes :: nat
  numButtons :: nat
  hasPov :: bool

text \<open>The object after \<^verbatim>\<open>ZeroMemory\<close>: every byte zero.\<close>

definition SCapabilities_zero :: SCapabilities where
  "SCapabilities_zero =
     \<lparr>axisCapabilities = replicate (nat EAxis_Count) \<lparr>type = EAxis_X, supportsForceFeedback = False\<rparr>,
      numAxes = 0, numButtons = 0, hasPov = False\<rparr>"

text \<open>
  \<^verbatim>\<open>AppendAxis\<close> does no bounds checking: a write past the end of the array is undefined
  behaviour in the source and the failure \<open>None\<close> here. The increment of the 3-bit field
  wraps.
\<close>

definition AppendAxis :: "SAxisCapabilities \<Rightarrow> SCapabilities \<Rightarrow> SCapabilities option" where
  "AppendAxis newAxisCapabilities c =
     (if numAxes c < length (axisCapabilities c)
      then Some (c\<lparr>axisCapabilities := (axisCapabilities c)[numAxes c := newAxisCapabilities],
                  numAxes := (numAxes c + 1) mod 8\<rparr>)
      else None)"

text \<open>The valid part of the axis array: the axis list of the capabilities.\<close>

definition capability_axes :: "SCapabilities \<Rightarrow> SAxisCapabilities list" where
  "capability_axes c = take (numAxes c) (axisCapabilities c)"

section \<open>Force feedback actuators and mapper constants\<close>

text \<open>
  Modelled from the spec: \<^verbatim>\<open>ForceFeedback::SActuatorElement\<close> and \<^verbatim>\<open>EActuatorMode\<close> are
  declared in ForceFeedbackTypes.h, which is not among the sources. A force-feedback
  actuator assignment is either absent, or bound to a single virtual axis (optionally
  restricted to its positive or negative half), or bound to two virtual axes combined by
  vector-magnitude projection. The fields are those Mapper.cpp reads; the two members
  of the union are separate fields, each read only under its own mode.
\<close>

datatype EActuatorMode = EActuatorMode_SingleAxis | EActuatorMode_MagnitudeProjection

record SActuatorElement =
  isPresent :: bool
  mode :: EActuatorMode
  singleAxis_axis :: EAxis
  singleAxis_direction :: EAxisDirection
  magnitudeProjection_axisFirst :: EAxis
  magnitudeProjection_axisSecond :: EAxis

text \<open>
  Modelled from the spec: \<^verbatim>\<open>Mapper::UForceFeedbackActuatorMap\<close> (Mapper.h, not among the
  sources) holds one assignment per physical actuator, reached by name or as the array
  \<^verbatim>\<open>all\<close>.
\<close>

record SForceFeedbackActuatorMap =
  leftMotor :: SActuatorElement
  rightMotor :: SActuatorElement
  leftImpulseTrigger :: SActuatorElement
  rightImpulseTrigger :: SActuatorElement

definition SForceFeedbackActuatorMap_all :: "SForceFeedbackActuatorMap \<Rightarrow> SActuatorElement list" where
  "SForceFeedbackActuatorMap_all forceFeedbackActuators =
     [leftMotor forceFeedbackActuators, rightMotor forceFeedbackActuators,
      leftImpulseTrigger forceFeedbackActuators, rightImpulseTrigger forceFeedbackActuators]"

text \<open>
  Modelled from the spec: \<^verbatim>\<open>BitSetEnum\<close> is declared in ApiBitSet.h, which is not among
  the sources. It is a set of enumerators; iterating it yields its members in ascending
  enum order.
\<close>

type_synonym 'e BitSetEnum = "'e set"

definition BitSetEnum_EAxis_elements :: "EAxis BitSetEnum \<Rightarrow> EAxis list" where
  "BitSetEnum_EAxis_elements s = filter (\<lambda>a. a \<in> s) EAxis_values"

text \<open>
  The constants \<^verbatim>\<open>Mapper::kRequiredAxes\<close>, \<^verbatim>\<open>kRequiredForceFeedbackAxes\<close>,
  \<^verbatim>\<open>kMinNumButtons\<close> and \<^verbatim>\<open>kIsPovRequired\<close> are declared in Mapper.h, which is not among
  the sources: they are parameters.
\<close>

record MapperConstants =
  kRequiredAxes :: "EAxis BitSetEnum"
  kRequiredForceFeedbackAxes :: "EAxis BitSetEnum"
  kMinNumButtons :: int
  kIsPovRequired :: bool

section \<open>Capability derivation (Mapper.cpp, DeriveCapabilitiesFromElementMap)\<close>

text \<open>
  The body of the inner loop: one target element, possibly \<^verbatim>\<open>nullopt\<close>, against the
  running \<open>(axesPresent, highestButtonSeen, povPresent)\<close>.
\<close>

fun note_target ::
  "SElementIdentifier option \<Rightarrow> EAxis BitSetEnum \<times> int \<times> bool \<Rightarrow> EAxis BitSetEnum \<times> int \<times> bool" where
  "note_target None st = st"
| "note_target (Some (Element_Axis a)) (axesPresent, highestButtonSeen, povPresent) =
     (if int_of_EAxis a < EAxis_Count
      then (insert a axesPresent, highestButtonSeen, povPresent)
      else (axesPresent, highestButtonSeen, povPresent))"
| "note_target (Some (Element_Button b)) (axesPresent, highestButtonSeen, povPresent) =
     (if int_of_EButton b < EButton_Count
      then (if int_of_EButton b > highestButtonSeen
            then (axesPresent, int_of_EButton b, povPresent)
            else (axesPresent, highestButtonSeen, povPresent))
      else (axesPresent, highestButtonSeen, povPresent))"
| "note_target (Some Element_Pov) (axesPresent, highestButtonSeen, povPresent) =
     (axesPresent, highestButtonSeen, True)"
| "note_target (Some Element_WholeController) st = st"

text \<open>What the inner loop asks of one slot: \<^verbatim>\<open>GetTargetElementAt(j)\<close> for \<open>0 \<le> j < count\<close>.\<close>

definition mapper_targets :: "IElementMapper option \<Rightarrow> SElementIdentifier option list" where
  "mapper_targets m =
     (case m of None \<Rightarrow> []
      | Some em \<Rightarrow> map (GetTargetElementAt em) [0 .. GetTargetElementCount em - 1])"

definition scan_element_mapper ::
  "IElementMapper option \<Rightarrow> EAxis BitSetEnum \<times> int \<times> bool \<Rightarrow> EAxis BitSetEnum \<times> int \<times> bool" where
  "scan_element_mapper m st = fold note_target (mapper_targets m) st"

text \<open>The body of the loop over the actuators, against \<open>(axesPresent, axesForceFeedback)\<close>.\<close>

definition scan_actuator ::
  "SActuatorElement \<Rightarrow> EAxis BitSetEnum \<times> EAxis BitSetEnum \<Rightarrow> EAxis BitSetEnum \<times> EAxis BitSetEnum" where
  "scan_actuator actuator st =
     (case st of (axesPresent, axesForceFeedback) \<Rightarrow>
        if isPresent actuator
        then (case mode actuator of
                EActuatorMode_SingleAxis \<Rightarrow>
                  (insert (singleAxis_axis actuator) axesPresent,
                   insert (singleAxis_axis actuator) axesForceFeedback)
              | EActuatorMode_MagnitudeProjection \<Rightarrow>
                  (insert (magnitudeProjection_axisSecond actuator)
                     (insert (magnitudeProjection_axisFirst actuator) axesPresent),
                   insert (magnitudeProjection_axisSecond actuator)
                     (insert (magnitudeProjection_axisFirst actuator) axesForceFeedback)))
        else (axesPresent, axesForceFeedback))"

text \<open>The loop that appends the present axes; it fails where \<^verbatim>\<open>AppendAxis\<close> does.\<close>

definition append_axes ::
  "EAxis list \<Rightarrow> EAxis BitSetEnum \<Rightarrow> SCapabilities \<Rightarrow> SCapabilities option" where
  "append_axes axes axesForceFeedback capabilities =
     fold (\<lambda>axisPresent c.
             case c of None \<Rightarrow> None
             | Some c' \<Rightarrow>
                 AppendAxis \<lparr>type = axisPresent,
                             supportsForceFeedback = (axisPresent \<in> axesForceFeedback)\<rparr> c')
          axes (Some capabilities)"

text \<open>The assignment of an \<^verbatim>\<open>int\<close> to the 5-bit field \<^verbatim>\<open>numButtons\<close> keeps the low 5 bits.\<close>

definition DeriveCapabilitiesFromElementMap ::
  "MapperConstants \<Rightarrow> SElementMap \<Rightarrow> SForceFeedbackActuatorMap \<Rightarrow> SCapabilities option" where
  "DeriveCapabilitiesFromElementMap constants elements forceFeedbackActuators =
     (case fold scan_element_mapper (SElementMap_all elements)
             (kRequiredAxes constants, kMinNumButtons constants - 1, kIsPovRequired constants) of
        (axesPresent0, highestButtonSeen, povPresent) \<Rightarrow>
     (case fold scan_actuator (SForceFeedbackActuatorMap_all forceFeedbackActuators)
             (axesPresent0, kRequiredForceFeedbackAxes constants) of
        (axesPresent, axesForceFeedback) \<Rightarrow>
     (case append_axes (BitSetEnum_EAxis_elements axesPresent) axesForceFeedback SCapabilities_zero of
        None \<Rightarrow> None
      | Some capabilities \<Rightarrow>
          Some (capabilities\<lparr>numButtons := nat ((highestButtonSeen + 1) mod 32),
                             hasPov := povPresent\<rparr>))))"



definition actuator_axes :: "SActuatorElement \<Rightarrow> EAxis set" where
  "actuator_axes actuator =
     (if isPresent actuator
      then (case mode actuator of
              EActuatorMode_SingleAxis \<Rightarrow> {singleAxis_axis actuator}
            | EActuatorMode_MagnitudeProjection \<Rightarrow>
                {magnitudeProjection_axisFirst actuator, magnitudeProjection_axisSecond actuator})
      else {})"

definition bound_axes :: "SForceFeedbackActuatorMap \<Rightarrow> EAxis set" where
  "bound_axes forceFeedbackActuators =
     (\<Union>actuator \<in> set (SForceFeedbackActuatorMap_all forceFeedbackActuators). actuator_axes actuator)"


text \<open>
  Sample inputs: an element mapper that reports the given targets and contributes
  nothing, an absent actuator, and mapper constants with the X and Y axes and two
  buttons mandated.
\<close>

definition mapper_with_targets :: "SElementIdentifier list \<Rightarrow> IElementMapper" where
  "mapper_with_targets ts =
     \<lparr>ContributeFromAnalogValue = (\<lambda>s v. s),
      ContributeFromButtonValue = (\<lambda>s v. s),
      ContributeFromTriggerValue = (\<lambda>s v. s),
      ContributeNeutral = (\<lambda>s. s),
      GetTargetElementCount = int (length ts),
      GetTargetElementAt = (\<lambda>j. if 0 \<le> j \<and> j < int (length ts) then Some (ts ! nat j) else None)\<rparr>"

definition SActuatorElement_absent :: SActuatorElement where
  "SActuatorElement_absent =
     \<lparr>isPresent = False, mode = EActuatorMode_SingleAxis,
      singleAxis_axis = EAxis_X, singleAxis_direction = EAxisDirection_Both,
      magnitudeProjection_axisFirst = EAxis_X, magnitudeProjection_axisSecond = EAxis_X\<rparr>"

definition SForceFeedbackActuatorMap_absent :: SForceFeedbackActuatorMap where
  "SForceFeedbackActuatorMap_absent =
     \<lparr>leftMotor = SActuatorElement_absent, rightMotor = SActuatorElement_absent,
      leftImpulseTrigger = SActuatorElement_absent, rightImpulseTrigger = SActuatorElement_absent\<rparr>"

definition sample_constants :: MapperConstants where
  "sample_constants =
     \<lparr>kRequiredAxes = {EAxis_X, EAxis_Y}, kRequiredForceFeedbackAxes = {},
      kMinNumButtons = 2, kIsPovRequired = False\<rparr>"

definition sample_elements :: SElementMap where
  "sample_elements =
     SElementMap_empty
       \<lparr>stickLeftX := Some (mapper_with_targets [Element_Axis EAxis_Z]),
        buttonA := Some (mapper_with_targets [Element_Button EButton_B5, Element_Pov])\<rparr>"

definition sample_actuators :: SForceFeedbackActuatorMap where
  "sample_actuators =
     SForceFeedbackActuatorMap_absent
       \<lparr>leftMotor := SActuatorElement_absent
          \<lparr>isPresent := True, mode := EActuatorMode_SingleAxis, singleAxis_axis := EAxis_RotX\<rparr>\<rparr>"

section \<open>Force feedback (Mapper.cpp, ForceFeedbackActuatorValue)\<close>

text \<open>
  \<^verbatim>\<open>ForceFeedback::TEffectValue\<close>, the magnitude component vector and the force-feedback
  constants are declared in ForceFeedbackTypes.h, which is not among the sources. Effect
  values are floating-point numbers in the program. Here an effect value is the real
  number it denotes, and an arithmetic operation on effect values gives the exact result
  rounded to an effect value by the rounding function of the type. The rounding function
  and the constants are parameters; with the identity as rounding function the
  arithmetic is exact. Infinities and NaN are left out. The component vector is an array
  indexed by the axis.
\<close>

type_synonym TEffectValue = real

type_synonym TOrderedMagnitudeComponents = "EAxis \<Rightarrow> TEffectValue"

record ForceFeedbackConstants =
  kEffectForceMagnitudeMaximum :: TEffectValue
  kEffectForceMagnitudeZero :: TEffectValue
  kEffectModifierMaximum :: TEffectValue
  roundEffectValue :: "real \<Rightarrow> TEffectValue"

text \<open>
  \<^verbatim>\<open>ForceFeedback::TPhysicalActuatorValue\<close> is the motor speed of \<^verbatim>\<open>XINPUT_VIBRATION\<close>
  (xinput.h), an unsigned 16-bit value.
\<close>

type_synonym TPhysicalActuatorValue = uint16_t


text \<open>\<^verbatim>\<open>std::lround\<close>: to the nearest integer, halfway cases away from zero.\<close>

definition lround :: "real \<Rightarrow> int" where
  "lround x = (if 0 \<le> x then \<lfloor>x + 1 / 2\<rfloor> else \<lceil>x - 1 / 2\<rceil>)"

text \<open>The three \<^verbatim>\<open>constexpr\<close> values of \<^verbatim>\<open>ForceFeedbackActuatorValue\<close>.\<close>

definition kPhysicalActuatorRange :: "ForceFeedbackConstants \<Rightarrow> TEffectValue" where
  "kPhysicalActuatorRange k = roundEffectValue k (65535 - 0)"

definition kVirtualMagnitudeRange :: "ForceFeedbackConstants \<Rightarrow> TEffectValue" where
  "kVirtualMagnitudeRange k =
     roundEffectValue k (kEffectForceMagnitudeMaximum k - kEffectForceMagnitudeZero k)"

definition kScalingFactor :: "ForceFeedbackConstants \<Rightarrow> TEffectValue" where
  "kScalingFactor k = roundEffectValue k (kPhysicalActuatorRange k / kVirtualMagnitudeRange k)"

text \<open>
  The tail of \<^verbatim>\<open>ForceFeedbackActuatorValue\<close>, from \<^verbatim>\<open>kGainMultiplier\<close> on: gain
  scaling, the clamp, the rescaling into the physical range and the conversion of the
  \<^verbatim>\<open>long\<close> to the unsigned 16-bit result, which keeps the low 16 bits. Every
  arithmetic operation is rounded; \<^verbatim>\<open>std::min\<close>, \<^verbatim>\<open>std::abs\<close> and \<^verbatim>\<open>std::lround\<close> are
  exact. The first operation on the raw strength also covers its conversion to an effect
  value.
\<close>

definition PhysicalActuatorStrength ::
  "ForceFeedbackConstants \<Rightarrow> TEffectValue \<Rightarrow> TEffectValue \<Rightarrow> TPhysicalActuatorValue" where
  "PhysicalActuatorStrength k gain virtualActuatorStrengthRaw =
     (let kGainMultiplier = roundEffectValue k (gain / kEffectModifierMaximum k);
          kVirtualActuatorStrengthMax =
            roundEffectValue k
              (roundEffectValue k (kEffectForceMagnitudeMaximum k - kEffectForceMagnitudeZero k)
               * kGainMultiplier);
          kVirtualActuatorStrength =
            min kVirtualActuatorStrengthMax
              (roundEffectValue k
                 (kGainMultiplier
                  * \<bar>roundEffectValue k (virtualActuatorStrengthRaw - kEffectForceMagnitudeZero k)\<bar>));
          kPhysicalActuatorStrength =
            lround (roundEffectValue k (kVirtualActuatorStrength * kScalingFactor k))
      in word_of_int kPhysicalActuatorStrength)"

text \<open>\<^verbatim>\<open>std::signbit\<close> of a component is \<open>c < 0\<close>; the zero component is tested before.\<close>

definition ForceFeedbackActuatorValue ::
  "ForceFeedbackConstants \<Rightarrow> TOrderedMagnitudeComponents \<Rightarrow> SActuatorElement \<Rightarrow> TEffectValue
     \<Rightarrow> TPhysicalActuatorValue" where
  "ForceFeedbackActuatorValue k virtualEffectComponents actuatorElement gain =
     (if \<not> isPresent actuatorElement then 0
      else
        case mode actuatorElement of
          EActuatorMode_SingleAxis \<Rightarrow>
            (if kEffectForceMagnitudeZero k = virtualEffectComponents (singleAxis_axis actuatorElement)
             then 0
             else
               let kActuatorDirectionIsNegative =
                     (virtualEffectComponents (singleAxis_axis actuatorElement) < 0)
               in if EAxisDirection_Positive = singleAxis_direction actuatorElement
                     \<and> kActuatorDirectionIsNegative then 0
                  else if EAxisDirection_Negative = singleAxis_direction actuatorElement
                     \<and> \<not> kActuatorDirectionIsNegative then 0
                  else PhysicalActuatorStrength k gain
                         (virtualEffectComponents (singleAxis_axis actuatorElement)))
        | EActuatorMode_MagnitudeProjection \<Rightarrow>
            PhysicalActuatorStrength k gain
              (sqrt ((virtualEffectComponents (magnitudeProjection_axisFirst actuatorElement))\<^sup>2
                     + (virtualEffectComponents (magnitudeProjection_axisSecond actuatorElement))\<^sup>2)))"





text \<open>
  What the claims about monotonicity need of the rounding function: it is monotone, it
  leaves an effect value as it is, and 0 and 1 are effect values. Rounding to the nearest
  floating-point number is such a function.
\<close>

definition rounding_function :: "(real \<Rightarrow> real) \<Rightarrow> bool" where
  "rounding_function rnd \<longleftrightarrow>
     (\<forall>x y. x \<le> y \<longrightarrow> rnd x \<le> rnd y) \<and> (\<forall>x. rnd (rnd x) = rnd x) \<and> rnd 0 = 0 \<and> rnd 1 = 1"

text \<open>
  Sample inputs: the force magnitudes and the gain range from 0 to 10000 with exact
  arithmetic, and the left motor follows the positive half of the X axis.
\<close>

definition sample_ff_constants :: ForceFeedbackConstants where
  "sample_ff_constants =
     \<lparr>kEffectForceMagnitudeMaximum = 10000, kEffectForceMagnitudeZero = 0,
      kEffectModifierMaximum = 10000, roundEffectValue = (\<lambda>x. x)\<rparr>"

definition positive_x_actuator :: SActuatorElement where
  "positive_x_actuator =
     SActuatorElement_absent
       \<lparr>isPresent := True, mode := EActuatorMode_SingleAxis,
        singleAxis_axis := EAxis_X, singleAxis_direction := EAxisDirection_Positive\<rparr>"

definition x_component :: "real \<Rightarrow> TOrderedMagnitudeComponents" where
  "x_component v = (\<lambda>a. 0)(EAxis_X := v)"


section \<open>Auxiliary definitions\<close>

text \<open>The button ordinals among the targets the inner loop sees, in order.\<close>

definition buttons_in :: "SElementIdentifier option list \<Rightarrow> int list" where
  "buttons_in ots = [int_of_EButton b. Some (Element_Button b) \<leftarrow> ots]"

text \<open>
  The clamped virtual strength and the \<^verbatim>\<open>long\<close> before its conversion to the unsigned
  16-bit result, with the zero force magnitude at 0.
\<close>

definition virtual_strength :: "ForceFeedbackConstants \<Rightarrow> real \<Rightarrow> real \<Rightarrow> real" where
  "virtual_strength k gain raw =
     min (roundEffectValue k
            (kVirtualMagnitudeRange k * roundEffectValue k (gain / kEffectModifierMaximum k)))
         (roundEffectValue k
            (roundEffectValue k (gain / kEffectModifierMaximum k) * \<bar>roundEffectValue k raw\<bar>))"

definition unwrapped_level :: "ForceFeedbackConstants \<Rightarrow> real \<Rightarrow> real \<Rightarrow> int" where
  "unwrapped_level k gain raw =
     lround (roundEffectValue k (virtual_strength k gain raw * kScalingFactor k))"

section \<open>Mapper builder (MapperBuilder.h)\<close>

text \<open>
  Modelled from the spec: MapperBuilder.cpp, which defines \<^verbatim>\<open>MapperBuilder::Build\<close>, is
  not among the sources; MapperBuilder.h declares the blueprint and documents the
  method. A blueprint holds an optional template name (empty for none), a sparse set of
  element-index to element-mapper overrides (an override may be absent, which removes
  the element mapper) and the build-attempted flag. An element table has one optional
  element mapper per element index. In the registry a built mapper is represented by
  its element table. Element mappers are values of an arbitrary type \<open>'em\<close>.
\<close>

type_synonym 'em ElementTable = "'em option list"

record 'em SBlueprint =
  templateName :: string
  changesFromTemplate :: "(nat \<times> 'em option) list"
  buildAttempted :: bool

record 'em MapperBuilder =
  blueprints :: "(string \<times> 'em SBlueprint) list"
  registry :: "'em ElementTable MapperRegistry"

text \<open>The number of slots of an element map, and the all-absent table.\<close>

definition kElementCount :: nat where
  "kElementCount = length (SElementMap_all SElementMap_empty)"

definition ElementTable_absent :: "'em ElementTable" where
  "ElementTable_absent = replicate kElementCount None"

text \<open>Setting the build-attempted flag of the blueprint stored under a name.\<close>

fun mark_attempted :: "string \<Rightarrow> (string \<times> 'em SBlueprint) list \<Rightarrow> (string \<times> 'em SBlueprint) list" where
  "mark_attempted name [] = []"
| "mark_attempted name ((n, blueprint) # rest) =
     (if n = name then (n, blueprint\<lparr>buildAttempted := True\<rparr>) # rest
      else (n, blueprint) # mark_attempted name rest)"

definition unattempted :: "(string \<times> 'em SBlueprint) list \<Rightarrow> nat" where
  "unattempted bps = length (filter (\<lambda>entry. \<not> buildAttempted (snd entry)) bps)"

text \<open>
  The overrides applied on top of the base table (an override replaces, an absent
  override removes), and the construction of the new named mapper, which registers it.
\<close>

definition apply_changes :: "(nat \<times> 'em option) list \<Rightarrow> 'em ElementTable \<Rightarrow> 'em ElementTable" where
  "apply_changes changes base = fold (\<lambda>change table. table[fst change := snd change]) changes base"

definition construct_mapper ::
  "string \<Rightarrow> 'em SBlueprint \<Rightarrow> 'em ElementTable \<Rightarrow> 'em MapperBuilder
     \<Rightarrow> 'em ElementTable option \<times> 'em MapperBuilder" where
  "construct_mapper mapperName blueprint base b =
     (let table = apply_changes (changesFromTemplate blueprint) base
      in (Some table, b\<lparr>registry := Mapper_construct mapperName table (registry b)\<rparr>))"

text \<open>
  Modelled from the spec: \<^verbatim>\<open>MapperBuilder::Build(mapperName)\<close>, whose body is in the
  missing MapperBuilder.cpp. The result is the new mapper (\<open>None\<close> for the null pointer of a
  failed build) and the builder and registry afterwards. The build fails for an unknown
  blueprint, for a name that is already a mapper, and for a blueprint whose build was
  already attempted. Otherwise the blueprint is marked as attempted; with no template
  the base is the all-absent table; a template that is a built mapper gives its table;
  a template that is a known blueprint is built first, and its failure fails this
  build; any other template name fails the build.
\<close>

function Build ::
  "string \<Rightarrow> 'em MapperBuilder \<Rightarrow> 'em ElementTable option \<times> 'em MapperBuilder" where
  "Build mapperName b =
     (case map_of (blueprints b) mapperName of
        None \<Rightarrow> (None, b)
      | Some blueprint \<Rightarrow>
          if knownMappers (registry b) mapperName \<noteq> None then (None, b)
          else if buildAttempted blueprint then (None, b)
          else if templateName blueprint = []
          then construct_mapper mapperName blueprint ElementTable_absent
                 (b\<lparr>blueprints := mark_attempted mapperName (blueprints b)\<rparr>)
          else
            (case knownMappers (registry b) (templateName blueprint) of
               Some base \<Rightarrow>
                 construct_mapper mapperName blueprint base
                   (b\<lparr>blueprints := mark_attempted mapperName (blueprints b)\<rparr>)
             | None \<Rightarrow>
                 (case map_of (blueprints b) (templateName blueprint) of
                    None \<Rightarrow> (None, b\<lparr>blueprints := mark_attempted mapperName (blueprints b)\<rparr>)
                  | Some templateBlueprint \<Rightarrow>
                      (case Build (templateName blueprint)
                              (b\<lparr>blueprints := mark_attempted mapperName (blueprints b)\<rparr>) of
                         (None, b') \<Rightarrow> (None, b')
                       | (Some base, b') \<Rightarrow> construct_mapper mapperName blueprint base b'))))"
  by pat_completeness auto
termination
proof (relation "measure (\<lambda>(mapperName, b). unattempted (blueprints b))")
  show "wf (measure (\<lambda>(mapperName, b). unattempted (blueprints b)))"
    by simp
next
  fix mapperName :: string and b :: "'em MapperBuilder" and blueprint :: "'em SBlueprint"
  assume found: "map_of (blueprints b) mapperName = Some blueprint"
    and fresh: "\<not> buildAttempted blueprint"
  have "unattempted (mark_attempted name bps) < unattempted bps"
    if "map_of bps name = Some bp" and "\<not> buildAttempted bp"
    for name and bps :: "(string \<times> 'em SBlueprint) list" and bp
    using that
  proof (induction bps)
    case Nil
    then show ?case by simp
  next
    case (Cons entry bps)
    obtain n blueprint' where entry: "entry = (n, blueprint')" by (cases entry)
    show ?case
    proof (cases "n = name")
      case True
      with Cons.prems entry show ?thesis by (simp add: unattempted_def)
    next
      case False
      with Cons.prems entry have "map_of bps name = Some bp" by simp
      from Cons.IH [OF this Cons.prems(2)] False entry show ?thesis
        by (simp add: unattempted_def)
    qed
  qed
  from this [OF found fresh]
  show "((templateName blueprint, b\<lparr>blueprints := mark_attempted mapperName (blueprints b)\<rparr>),
         (mapperName, b))
        \<in> measure (\<lambda>(mapperName, b). unattempted (blueprints b))"
    by simp
qed

declare Build.simps [simp del]

text \<open>Sample input: two blueprints that name each other as template, and no mapper.\<close>

definition cyclic_builder :: "nat MapperBuilder" where
  "cyclic_builder =
     \<lparr>blueprints =
        [(''A'', \<lparr>templateName = ''B'', changesFromTemplate = [], buildAttempted = False\<rparr>),
         (''B'', \<lparr>templateName = ''A'', changesFromTemplate = [(0, Some 7)], buildAttempted = False\<rparr>)],
      registry = MapperRegistry_initial\<rparr>"

section \<open>Properties of the registry\<close>

lemma RegisterMapper_known:
  "name \<noteq> [] \<Longrightarrow> knownMappers (RegisterMapper name object r) = (knownMappers r)(name \<mapsto> object)"
  by (simp add: RegisterMapper_def Let_def)

lemma RegisterMapper_default:
  "name \<noteq> [] \<Longrightarrow>
   defaultMapper (RegisterMapper name object r) = (if defaultMapper r = [] then name else defaultMapper r)"
  by (simp add: RegisterMapper_def Let_def)

lemma register_all_default_kept:
  "defaultMapper r \<noteq> [] \<Longrightarrow> defaultMapper (register_all regs r) = defaultMapper r"
proof (induction regs arbitrary: r)
  case Nil
  then show ?case by (simp add: register_all_def)
next
  case (Cons reg regs)
  obtain n p where reg: "reg = (n, p)" by (cases reg)
  have step: "defaultMapper (RegisterMapper n p r) = defaultMapper r"
    using Cons.prems by (simp add: RegisterMapper_def Let_def)
  have "register_all (reg # regs) r = register_all regs (RegisterMapper n p r)"
    by (simp add: register_all_def reg)
  with Cons.IH [of "RegisterMapper n p r"] step Cons.prems show ?case by simp
qed

lemma register_all_known_other:
  "name \<notin> fst ` set regs \<Longrightarrow> knownMappers (register_all regs r) name = knownMappers r name"
proof (induction regs arbitrary: r)
  case Nil
  then show ?case by (simp add: register_all_def)
next
  case (Cons reg regs)
  obtain n p where reg: "reg = (n, p)" by (cases reg)
  from Cons.prems reg have ne: "name \<noteq> n" and rest: "name \<notin> fst ` set regs" by auto
  have step: "knownMappers (RegisterMapper n p r) name = knownMappers r name"
    using ne by (simp add: RegisterMapper_def Let_def)
  have "register_all (reg # regs) r = register_all regs (RegisterMapper n p r)"
    by (simp add: register_all_def reg)
  with Cons.IH [OF rest, of "RegisterMapper n p r"] step show ?case by simp
qed

text \<open>The empty name is never a key of the registry.\<close>

lemma apply_event_no_empty_key:
  "knownMappers r [] = None \<Longrightarrow> knownMappers (apply_event ev r) [] = None"
  by (cases ev)
     (auto simp: Mapper_construct_def Mapper_destroy_def RegisterMapper_def
        UnregisterMapper_def Let_def)

lemma run_events_no_empty_key:
  "knownMappers r [] = None \<Longrightarrow> knownMappers (run_events evs r) [] = None"
  unfolding run_events_def
  by (induction evs arbitrary: r) (simp_all add: apply_event_no_empty_key)

text \<open>
  C8 (amended). From the empty registry, after registering the named mappers
  \<open>(n, p) # rest\<close> in order, the default designation is the first name \<open>n\<close>: looking up the
  empty name gives what looking up \<open>n\<close> gives, and that is the first mapper \<open>p\<close> whenever no
  later registration uses the name \<open>n\<close> again. Constructing a named mapper registers it
  under its name, whatever the registry held before.
\<close>

theorem first_registered_is_default:
  assumes "\<forall>reg \<in> set ((n, p) # rest). fst reg \<noteq> []"
  shows "GetMapper (register_all ((n, p) # rest) MapperRegistry_initial) [] =
           GetMapper (register_all ((n, p) # rest) MapperRegistry_initial) n
       \<and> (n \<notin> fst ` set rest \<longrightarrow>
           GetMapper (register_all ((n, p) # rest) MapperRegistry_initial) [] = Some p)
       \<and> (\<forall>name this r. name \<noteq> [] \<longrightarrow>
           GetMapper (Mapper_construct name this (r :: 'p MapperRegistry)) name = Some this)"
proof (intro conjI impI allI)
  let ?r1 = "RegisterMapper n p MapperRegistry_initial"
  from assms have n: "n \<noteq> []" by simp
  have unfold: "register_all ((n, p) # rest) MapperRegistry_initial = register_all rest ?r1"
    by (simp add: register_all_def)
  have d1: "defaultMapper ?r1 = n"
    using n by (simp add: RegisterMapper_default MapperRegistry_initial_def)
  have dflt: "defaultMapper (register_all rest ?r1) = n"
    using register_all_default_kept [of ?r1 rest] d1 n by simp
  show "GetMapper (register_all ((n, p) # rest) MapperRegistry_initial) [] =
           GetMapper (register_all ((n, p) # rest) MapperRegistry_initial) n"
    using dflt n by (simp add: unfold GetMapper_def)
  show "GetMapper (register_all ((n, p) # rest) MapperRegistry_initial) [] = Some p"
    if "n \<notin> fst ` set rest"
  proof -
    have "knownMappers (register_all rest ?r1) n = knownMappers ?r1 n"
      using that by (rule register_all_known_other)
    also have "\<dots> = Some p"
      using n by (simp add: RegisterMapper_known)
    finally show ?thesis
      using dflt n by (simp add: unfold GetMapper_def)
  qed
  show "GetMapper (Mapper_construct name this r) name = Some this"
    if "name \<noteq> []" for name this and r :: "'p MapperRegistry"
    using that by (simp add: Mapper_construct_def GetMapper_def RegisterMapper_known)
qed

theorem first_registered_is_default_witness:
  "GetMapper (register_all [(''A'', 1::nat), (''B'', 2), (''B'', 3)] MapperRegistry_initial) [] = Some 1
   \<and> GetMapper (Mapper_construct ''B'' (2::nat) (register_all [(''A'', 1)] MapperRegistry_initial)) ''B'' = Some 2"
proof -
  have named: "\<forall>reg \<in> set ((''A'', 1::nat) # [(''B'', 2), (''B'', 3)]). fst reg \<noteq> []"
    by simp
  have fresh: "''A'' \<notin> fst ` set [(''B'', 2::nat), (''B'', 3)]"
    by simp
  have ne: "''B'' \<noteq> []" by simp
  note th = first_registered_is_default [OF named]
  from th [THEN conjunct2, THEN conjunct1, THEN mp, OF fresh]
       th [THEN conjunct2, THEN conjunct2, THEN spec, THEN spec, THEN spec, THEN mp, OF ne]
  show ?thesis by simp
qed

text \<open>
  C8 as stated fails: two mappers constructed under the same name. The second
  registration replaces the object stored under the default name, so the empty name
  resolves to the second mapper, not to the first one registered.
\<close>

theorem first_registered_counterexample:
  "GetMapper (register_all [(''A'', 1::nat), (''A'', 2)] MapperRegistry_initial) [] = Some 2
   \<and> GetMapper (register_all [(''A'', 1::nat), (''A'', 2)] MapperRegistry_initial) [] \<noteq> Some 1"
  by (simp add: register_all_def RegisterMapper_def GetMapper_def MapperRegistry_initial_def Let_def)

text \<open>
  C10. In a registry reached from the initial one by any history of constructions and
  destructions, unregistering the default mapper (name and object both matching) clears
  the default designation: the default name is empty afterwards, looking up the empty
  name finds no mapper, and every other registration is untouched.
\<close>

theorem unregister_default_clears:
  assumes "r = run_events evs MapperRegistry_initial"
    and "defaultMapper r = name" and "name \<noteq> []"
    and "knownMappers r name = Some object"
  shows "defaultMapper (Mapper_destroy name object r) = []
       \<and> GetMapper (Mapper_destroy name object r) [] = None
       \<and> (\<forall>other. other \<noteq> name \<longrightarrow>
           GetMapper (Mapper_destroy name object r) other = knownMappers r other)"
proof -
  have noempty: "knownMappers r [] = None"
    unfolding assms(1)
    by (rule run_events_no_empty_key) (simp add: MapperRegistry_initial_def)
  have after: "Mapper_destroy name object r =
      r\<lparr>knownMappers := (knownMappers r)(name := None), defaultMapper := []\<rparr>"
    using assms(2-4) by (simp add: Mapper_destroy_def UnregisterMapper_def Let_def)
  show ?thesis
    using noempty by (auto simp: after GetMapper_def)
qed

theorem unregister_default_clears_witness:
  "GetMapper (Mapper_destroy ''A'' (1::nat)
      (run_events [Construct ''A'' 1, Construct ''B'' 2] MapperRegistry_initial)) [] = None
   \<and> GetMapper (Mapper_destroy ''A'' (1::nat)
      (run_events [Construct ''A'' 1, Construct ''B'' 2] MapperRegistry_initial)) ''B'' = Some 2"
proof -
  let ?r = "run_events [Construct ''A'' (1::nat), Construct ''B'' 2] MapperRegistry_initial"
  have d: "defaultMapper ?r = ''A''"
    by (simp add: run_events_def Mapper_construct_def RegisterMapper_def
        MapperRegistry_initial_def Let_def)
  have k: "knownMappers ?r ''A'' = Some 1"
    by (simp add: run_events_def Mapper_construct_def RegisterMapper_def
        MapperRegistry_initial_def Let_def)
  have kb: "knownMappers ?r ''B'' = Some 2"
    by (simp add: run_events_def Mapper_construct_def RegisterMapper_def
        MapperRegistry_initial_def Let_def)
  have ne: "''A'' \<noteq> []" by simp
  have neq: "''B'' \<noteq> ''A''" by simp
  note th = unregister_default_clears [OF refl d ne k]
  from th [THEN conjunct2, THEN conjunct1]
       th [THEN conjunct2, THEN conjunct2, THEN spec, THEN mp, OF neq] kb
  show ?thesis by simp
qed

section \<open>Properties of the configured mappers\<close>

lemma InitializeConfiguredMappers_length:
  "length (InitializeConfiguredMappers configData r kNullMapper) = kPhysicalControllerCount"
  by (simp add: InitializeConfiguredMappers_def Let_def split: option.splits)

lemma InitializeConfiguredMappers_nth:
  assumes "slot < kPhysicalControllerCount"
  shows "InitializeConfiguredMappers configData r kNullMapper ! slot =
           Some (configured_fallback_chain configData r kNullMapper slot)"
proof (cases "mapperSection configData")
  case None
  then show ?thesis
    using assms
    by (cases "GetDefault r")
       (simp_all add: InitializeConfiguredMappers_def configured_fallback_chain_def
          first_present_def List.map_filter_simps GetNull_def Let_def)
next
  case (Some sec)
  show ?thesis
  proof (cases "mapperTypeForController sec slot")
    case None
    then show ?thesis
      using assms Some
      by (cases "mapperType sec"; cases "GetDefault r";
          cases "GetByName r (the (mapperType sec))")
         (simp_all add: InitializeConfiguredMappers_def configured_fallback_chain_def
            first_present_def List.map_filter_simps GetNull_def resolve_name_def Let_def)
  next
    case (Some nm)
    then show ?thesis
      using assms \<open>mapperSection configData = Some sec\<close>
      by (cases "mapperType sec"; cases "GetDefault r";
          cases "GetByName r (the (mapperType sec))"; cases "GetByName r nm")
         (simp_all add: InitializeConfiguredMappers_def configured_fallback_chain_def
            first_present_def List.map_filter_simps GetNull_def resolve_name_def Let_def)
  qed
qed

text \<open>
  C9 (amended). \<^verbatim>\<open>GetConfigured\<close> decides the mapper of every slot once, on the first
  call, from the configuration and the registry as they are then: a slot in range gets
  the first of the mapper named for that slot, the mapper named by the
  controller-independent type setting, the registry's default mapper and the null mapper
  (a name that is absent or does not resolve is skipped). The first call and every later
  call, whatever has been registered or configured since, return that mapper for a slot
  in range and the null mapper for a slot out of range, never a null pointer, and a
  later call leaves the stored assignment as it is.
\<close>

theorem GetConfigured_fallback:
  "fst (GetConfigured configData r kNullMapper None slot) \<noteq> None
   \<and> (slot < kPhysicalControllerCount \<longrightarrow>
        fst (GetConfigured configData r kNullMapper None slot) =
          Some (configured_fallback_chain configData r kNullMapper slot))
   \<and> (slot \<ge> kPhysicalControllerCount \<longrightarrow>
        fst (GetConfigured configData r kNullMapper None slot) = Some kNullMapper)
   \<and> fst (GetConfigured configData' r' kNullMapper
             (snd (GetConfigured configData r kNullMapper None slot0)) slot)
        = fst (GetConfigured configData r kNullMapper None slot)
   \<and> snd (GetConfigured configData' r' kNullMapper
             (snd (GetConfigured configData r kNullMapper None slot0)) slot)
        = snd (GetConfigured configData r kNullMapper None slot0)"
proof -
  have first: "fst (GetConfigured configData r kNullMapper None slot) =
      (if slot < kPhysicalControllerCount
       then Some (configured_fallback_chain configData r kNullMapper slot)
       else Some kNullMapper)"
    by (simp add: GetConfigured_def Let_def InitializeConfiguredMappers_nth GetNull_def)
  have stored: "snd (GetConfigured configData r kNullMapper None s) =
      Some (InitializeConfiguredMappers configData r kNullMapper)" for s
    by (simp add: GetConfigured_def Let_def)
  have later_fst: "fst (GetConfigured configData' r' kNullMapper
        (Some (InitializeConfiguredMappers configData r kNullMapper)) slot) =
      fst (GetConfigured configData r kNullMapper None slot)"
    by (simp add: GetConfigured_def Let_def)
  have later_snd: "snd (GetConfigured configData' r' kNullMapper
        (Some (InitializeConfiguredMappers configData r kNullMapper)) slot) =
      Some (InitializeConfiguredMappers configData r kNullMapper)"
    by (simp add: GetConfigured_def Let_def)
  show ?thesis
    unfolding stored later_fst later_snd first by simp
qed

theorem GetConfigured_fallback_witness:
  "fst (GetConfigured
      \<lparr>mapperSection = Some \<lparr>mapperType = Some ''T'', mapperTypeForController = (\<lambda>i. None)\<rparr>\<rparr>
      (register_all [(''D'', 1::nat), (''T'', 2)] MapperRegistry_initial) 0 None 0) = Some 2
   \<and> fst (GetConfigured
      \<lparr>mapperSection = Some \<lparr>mapperType = Some ''T'', mapperTypeForController = (\<lambda>i. None)\<rparr>\<rparr>
      (register_all [(''D'', 1::nat), (''T'', 2)] MapperRegistry_initial) 0 None 7) = Some 0
   \<and> fst (GetConfigured \<lparr>mapperSection = None\<rparr> MapperRegistry_initial 0
        (snd (GetConfigured
          \<lparr>mapperSection = Some \<lparr>mapperType = Some ''T'', mapperTypeForController = (\<lambda>i. None)\<rparr>\<rparr>
          (register_all [(''D'', 1::nat), (''T'', 2)] MapperRegistry_initial) 0 None 3)) 0) = Some 2"
proof -
  let ?cfg = "\<lparr>mapperSection = Some \<lparr>mapperType = Some ''T'', mapperTypeForController = (\<lambda>i. None)\<rparr>\<rparr>"
  let ?r = "register_all [(''D'', 1::nat), (''T'', 2)] MapperRegistry_initial"
  have in_range: "(0::nat) < kPhysicalControllerCount"
    by (simp add: kPhysicalControllerCount_def)
  have out_of_range: "(7::nat) \<ge> kPhysicalControllerCount"
    by (simp add: kPhysicalControllerCount_def)
  have chain: "configured_fallback_chain ?cfg ?r 0 0 = 2"
    by (simp add: configured_fallback_chain_def first_present_def List.map_filter_simps
        resolve_name_def GetByName_def GetMapper_def GetDefault_def register_all_def
        RegisterMapper_def MapperRegistry_initial_def Let_def)
  note th0 = GetConfigured_fallback
    [of ?cfg ?r 0 0 "\<lparr>mapperSection = None\<rparr>" MapperRegistry_initial 3]
  note th7 = GetConfigured_fallback
    [of ?cfg ?r 0 7 "\<lparr>mapperSection = None\<rparr>" MapperRegistry_initial 3]
  note first0 = th0 [THEN conjunct2, THEN conjunct1, THEN mp, OF in_range]
  note first7 = th7 [THEN conjunct2, THEN conjunct2, THEN conjunct1, THEN mp, OF out_of_range]
  note later0 = th0 [THEN conjunct2, THEN conjunct2, THEN conjunct2, THEN conjunct1]
  from first0 first7 later0 chain show ?thesis
    by simp
qed

text \<open>
  C9 as stated fails: with a controller-independent type setting \<open>''T''\<close> that resolves
  and no setting for slot 0, the slot gets the mapper \<open>''T''\<close> although the registry's
  default mapper is \<open>''D''\<close>.
\<close>

theorem GetConfigured_default_counterexample:
  "fst (GetConfigured
      \<lparr>mapperSection = Some \<lparr>mapperType = Some ''T'', mapperTypeForController = (\<lambda>i. None)\<rparr>\<rparr>
      (register_all [(''D'', 1::nat), (''T'', 2)] MapperRegistry_initial) 0 None 0) = Some 2
   \<and> GetDefault (register_all [(''D'', 1::nat), (''T'', 2)] MapperRegistry_initial) = Some 1"
  by (simp add: GetConfigured_def InitializeConfiguredMappers_def kPhysicalControllerCount_def
      GetByName_def GetMapper_def GetDefault_def GetNull_def register_all_def
      RegisterMapper_def MapperRegistry_initial_def Let_def)

section \<open>Properties of the state translation\<close>

lemma sint16_bounds: "- 32768 \<le> sint (v :: int16_t) \<and> sint v \<le> 32767"
  using sint_ge [of v] sint_lt [of v] by simp

lemma FilterAnalogStickValue_sint:
  "sint (FilterAnalogStickValue v) = saturated_reading v"
  using sint16_bounds [of v]
  by (simp add: FilterAnalogStickValue_def saturated_reading_def kAnalogValueMax_def
      kAnalogValueMin_def)

lemma saturated_reading_range: "- 32767 \<le> saturated_reading v \<and> saturated_reading v \<le> 32767"
  by (simp add: saturated_reading_def)

lemma sint16_of_int: "- 32768 \<le> i \<Longrightarrow> i \<le> 32767 \<Longrightarrow> sint (word_of_int i :: int16_t) = i"
  by (simp add: signed_of_int signed_take_bit_int_eq_self)

lemma FilterAnalogStickValue_eq:
  "FilterAnalogStickValue v = word_of_int (saturated_reading v)"
proof -
  have "word_of_int (sint (FilterAnalogStickValue v)) = FilterAnalogStickValue v"
    by simp
  then show ?thesis
    by (simp only: FilterAnalogStickValue_sint)
qed

lemma FilterAndInvertAnalogStickValue_eq:
  "FilterAndInvertAnalogStickValue v = word_of_int (- saturated_reading v)"
  by (simp add: FilterAndInvertAnalogStickValue_def FilterAnalogStickValue_sint)

lemma saturate_axis_value_range:
  "- 32767 \<le> sint (saturate_axis_value w) \<and> sint (saturate_axis_value w) \<le> 32767"
  by (simp add: saturate_axis_value_def kAnalogValueMax_def kAnalogValueMin_def)

text \<open>
  C1. Whatever the element mappers do and whatever the gamepad reports, each of the six
  axis values of the state returned by \<^verbatim>\<open>MapStatePhysicalToVirtual\<close> lies in
  \<open>[-32767, 32767]\<close>.
\<close>

theorem MapStatePhysicalToVirtual_axis_range:
  "- 32767 \<le> sint (axis (MapStatePhysicalToVirtual elements physicalState) a)
   \<and> sint (axis (MapStatePhysicalToVirtual elements physicalState) a) \<le> 32767"
  by (simp add: MapStatePhysicalToVirtual_def saturate_axes_def saturate_axis_value_range)

text \<open>
  C4. \<^verbatim>\<open>MapStatePhysicalToVirtual\<close> calls \<^verbatim>\<open>ContributeFromAnalogValue\<close> of each present
  stick mapper, in the order left X, left Y, right X, right Y, on the state so far and
  with the reading saturated into \<open>[-32767, 32767]\<close>; for the vertical sticks (left Y,
  right Y) the value passed is the negation of the saturated reading, for the horizontal
  ones the saturated reading itself. The values passed fit \<^verbatim>\<open>int16_t\<close>, so a vertical
  \<open>-32768\<close> is delivered as \<open>+32767\<close>.
\<close>

theorem MapStatePhysicalToVirtual_stick_values:
  "MapStatePhysicalToVirtual elements physicalState =
     (let s1 = (case stickLeftX elements of
                  None \<Rightarrow> SState_zero
                | Some m \<Rightarrow> ContributeFromAnalogValue m SState_zero
                             (word_of_int (saturated_reading (sThumbLX physicalState))));
          s2 = (case stickLeftY elements of
                  None \<Rightarrow> s1
                | Some m \<Rightarrow> ContributeFromAnalogValue m s1
                             (word_of_int (- saturated_reading (sThumbLY physicalState))));
          s3 = (case stickRightX elements of
                  None \<Rightarrow> s2
                | Some m \<Rightarrow> ContributeFromAnalogValue m s2
                             (word_of_int (saturated_reading (sThumbRX physicalState))));
          s4 = (case stickRightY elements of
                  None \<Rightarrow> s3
                | Some m \<Rightarrow> ContributeFromAnalogValue m s3
                             (word_of_int (- saturated_reading (sThumbRY physicalState))))
      in saturate_axes (contribute_buttons_and_triggers elements physicalState s4))
   \<and> - 32767 \<le> saturated_reading v \<and> saturated_reading v \<le> 32767
   \<and> sint (word_of_int (saturated_reading v) :: int16_t) = saturated_reading v
   \<and> sint (word_of_int (- saturated_reading v) :: int16_t) = - saturated_reading v
   \<and> sint (FilterAnalogStickValue v) = saturated_reading v
   \<and> sint (FilterAndInvertAnalogStickValue v) = - saturated_reading v
   \<and> FilterAndInvertAnalogStickValue (- 32768) = 32767"
proof -
  have range: "- 32767 \<le> saturated_reading v \<and> saturated_reading v \<le> 32767"
    by (rule saturated_reading_range)
  have plain: "sint (word_of_int (saturated_reading v) :: int16_t) = saturated_reading v"
    using range by (intro sint16_of_int) simp_all
  have negated: "sint (word_of_int (- saturated_reading v) :: int16_t) = - saturated_reading v"
    using range by (intro sint16_of_int) simp_all
  have inv: "sint (FilterAndInvertAnalogStickValue v) = - saturated_reading v"
    unfolding FilterAndInvertAnalogStickValue_eq by (rule negated)
  have extreme: "FilterAndInvertAnalogStickValue (- 32768) = 32767"
    by (simp add: FilterAndInvertAnalogStickValue_def FilterAnalogStickValue_def
        kAnalogValueMax_def kAnalogValueMin_def)
  have unfolded: "MapStatePhysicalToVirtual elements physicalState =
     (let s1 = (case stickLeftX elements of
                  None \<Rightarrow> SState_zero
                | Some m \<Rightarrow> ContributeFromAnalogValue m SState_zero
                             (word_of_int (saturated_reading (sThumbLX physicalState))));
          s2 = (case stickLeftY elements of
                  None \<Rightarrow> s1
                | Some m \<Rightarrow> ContributeFromAnalogValue m s1
                             (word_of_int (- saturated_reading (sThumbLY physicalState))));
          s3 = (case stickRightX elements of
                  None \<Rightarrow> s2
                | Some m \<Rightarrow> ContributeFromAnalogValue m s2
                             (word_of_int (saturated_reading (sThumbRX physicalState))));
          s4 = (case stickRightY elements of
                  None \<Rightarrow> s3
                | Some m \<Rightarrow> ContributeFromAnalogValue m s3
                             (word_of_int (- saturated_reading (sThumbRY physicalState))))
      in saturate_axes (contribute_buttons_and_triggers elements physicalState s4))"
    by (simp only: MapStatePhysicalToVirtual_def contribute_sticks_def o_apply Let_def
        contribute_analog_def FilterAnalogStickValue_eq FilterAndInvertAnalogStickValue_eq)
  show ?thesis
    using unfolded range plain negated inv extreme FilterAnalogStickValue_sint [of v] by blast
qed

theorem MapStatePhysicalToVirtual_stick_values_witness:
  "sint (axis (MapStatePhysicalToVirtual
                 (SElementMap_empty\<lparr>stickLeftY := Some recording_mapper\<rparr>)
                 (gamepad_with_left_stick 0 (- 32768))) EAxis_X) = 32767
   \<and> sint (axis (MapStatePhysicalToVirtual
                 (SElementMap_empty\<lparr>stickLeftX := Some recording_mapper\<rparr>)
                 (gamepad_with_left_stick (- 32768) 0)) EAxis_X) = - 32767"
proof -
  have buttons: "contribute_buttons_and_triggers (SElementMap_empty\<lparr>stickLeftY := m\<rparr>) p s = s"
    "contribute_buttons_and_triggers (SElementMap_empty\<lparr>stickLeftX := m\<rparr>) p s = s" for m p s
    by (simp_all add: contribute_buttons_and_triggers_def SElementMap_empty_def
        contribute_button_def contribute_trigger_def)
  have low: "saturated_reading (- 32768) = - 32767"
    by (simp add: saturated_reading_def)
  have slots_y:
    "stickLeftX (SElementMap_empty\<lparr>stickLeftY := m\<rparr>) = None"
    "stickLeftY (SElementMap_empty\<lparr>stickLeftY := m\<rparr>) = m"
    "stickRightX (SElementMap_empty\<lparr>stickLeftY := m\<rparr>) = None"
    "stickRightY (SElementMap_empty\<lparr>stickLeftY := m\<rparr>) = None" for m
    by (simp_all add: SElementMap_empty_def)
  have slots_x:
    "stickLeftX (SElementMap_empty\<lparr>stickLeftX := m\<rparr>) = m"
    "stickLeftY (SElementMap_empty\<lparr>stickLeftX := m\<rparr>) = None"
    "stickRightX (SElementMap_empty\<lparr>stickLeftX := m\<rparr>) = None"
    "stickRightY (SElementMap_empty\<lparr>stickLeftX := m\<rparr>) = None" for m
    by (simp_all add: SElementMap_empty_def)
  note y = MapStatePhysicalToVirtual_stick_values
    [of "SElementMap_empty\<lparr>stickLeftY := Some recording_mapper\<rparr>"
        "gamepad_with_left_stick 0 (- 32768)" 0, THEN conjunct1]
  note x = MapStatePhysicalToVirtual_stick_values
    [of "SElementMap_empty\<lparr>stickLeftX := Some recording_mapper\<rparr>"
        "gamepad_with_left_stick (- 32768) 0" 0, THEN conjunct1]
  have "sint (axis (MapStatePhysicalToVirtual
                 (SElementMap_empty\<lparr>stickLeftY := Some recording_mapper\<rparr>)
                 (gamepad_with_left_stick 0 (- 32768))) EAxis_X) = 32767"
    unfolding y
    by (simp add: Let_def buttons low slots_y gamepad_with_left_stick_def
        recording_mapper_def SState_zero_def saturate_axes_def saturate_axis_value_def
        kAnalogValueMax_def kAnalogValueMin_def)
  moreover have "sint (axis (MapStatePhysicalToVirtual
                 (SElementMap_empty\<lparr>stickLeftX := Some recording_mapper\<rparr>)
                 (gamepad_with_left_stick (- 32768) 0)) EAxis_X) = - 32767"
    unfolding x
    by (simp add: Let_def buttons low slots_x gamepad_with_left_stick_def
        recording_mapper_def SState_zero_def saturate_axes_def saturate_axis_value_def
        kAnalogValueMax_def kAnalogValueMin_def)
  ultimately show ?thesis by (rule conjI)
qed

section \<open>Properties of the capability derivation\<close>

lemma int_of_EAxis_less_Count: "int_of_EAxis a < EAxis_Count"
  by (cases a) (simp_all add: EAxis_Count_def)

lemma int_of_EButton_less_Count: "int_of_EButton b < EButton_Count"
  by (cases b) (simp_all add: EButton_Count_def)




lemma buttons_in_simps:
  "buttons_in [] = []"
  "buttons_in (None # ots) = buttons_in ots"
  "buttons_in (Some (Element_Axis a) # ots) = buttons_in ots"
  "buttons_in (Some (Element_Button b) # ots) = int_of_EButton b # buttons_in ots"
  "buttons_in (Some Element_Pov # ots) = buttons_in ots"
  "buttons_in (Some Element_WholeController # ots) = buttons_in ots"
  by (simp_all add: buttons_in_def)

lemma fold_note_target:
  "fold note_target ots (A, h, p) =
     (A \<union> {a. Some (Element_Axis a) \<in> set ots},
      fold max (buttons_in ots) h,
      p \<or> Some Element_Pov \<in> set ots)"
proof (induction ots arbitrary: A h p)
  case Nil
  then show ?case by (simp add: buttons_in_simps)
next
  case (Cons ot ots)
  show ?case
  proof (cases ot)
    case None
    with Cons.IH [of A h p] show ?thesis by (simp add: buttons_in_simps)
  next
    case (Some t)
    show ?thesis
    proof (cases t)
      case (Element_Axis a)
      have "fold note_target (ot # ots) (A, h, p) = fold note_target ots (insert a A, h, p)"
        by (simp add: Some Element_Axis int_of_EAxis_less_Count)
      also have "\<dots> = (insert a A \<union> {a. Some (Element_Axis a) \<in> set ots},
          fold max (buttons_in ots) h, p \<or> Some Element_Pov \<in> set ots)"
        by (rule Cons.IH)
      finally show ?thesis
        by (auto simp: Some Element_Axis buttons_in_simps)
    next
      case (Element_Button b)
      have "fold note_target (ot # ots) (A, h, p) = fold note_target ots (A, max (int_of_EButton b) h, p)"
        by (simp add: Some Element_Button int_of_EButton_less_Count max_def)
      also have "\<dots> = (A \<union> {a. Some (Element_Axis a) \<in> set ots},
          fold max (buttons_in ots) (max (int_of_EButton b) h), p \<or> Some Element_Pov \<in> set ots)"
        by (rule Cons.IH)
      finally show ?thesis
        by (auto simp: Some Element_Button buttons_in_simps)
    next
      case Element_Pov
      have "fold note_target (ot # ots) (A, h, p) = fold note_target ots (A, h, True)"
        by (simp add: Some Element_Pov)
      also have "\<dots> = (A \<union> {a. Some (Element_Axis a) \<in> set ots},
          fold max (buttons_in ots) h, True \<or> Some Element_Pov \<in> set ots)"
        by (rule Cons.IH)
      finally show ?thesis
        by (auto simp: Some Element_Pov buttons_in_simps)
    next
      case Element_WholeController
      with Cons.IH [of A h p] show ?thesis by (simp add: Some buttons_in_simps)
    qed
  qed
qed

lemma fold_scan_element_mapper:
  "fold scan_element_mapper ms st = fold note_target (concat (map mapper_targets ms)) st"
  by (induction ms arbitrary: st) (simp_all add: scan_element_mapper_def)

lemma fold_scan_actuator:
  "fold scan_actuator acts (P, F) =
     (P \<union> (\<Union>act \<in> set acts. actuator_axes act), F \<union> (\<Union>act \<in> set acts. actuator_axes act))"
proof (induction acts arbitrary: P F)
  case Nil
  then show ?case by simp
next
  case (Cons act acts)
  obtain P' F' where step: "scan_actuator act (P, F) = (P', F')"
    by (cases "scan_actuator act (P, F)")
  have P': "P' = P \<union> actuator_axes act" and F': "F' = F \<union> actuator_axes act"
    using step
    by (auto simp: scan_actuator_def actuator_axes_def split: if_splits EActuatorMode.splits)
  show ?case
    by (simp add: step Cons.IH P' F' Un_assoc)
qed

text \<open>The appending loop succeeds while the array has room, and fills it in order.\<close>

lemma append_axes_run:
  assumes "numAxes c + length axes \<le> length (axisCapabilities c)"
    and "length (axisCapabilities c) \<le> 7"
  shows "\<exists>c'. append_axes axes F c = Some c'
           \<and> numAxes c' = numAxes c + length axes
           \<and> length (axisCapabilities c') = length (axisCapabilities c)
           \<and> take (numAxes c') (axisCapabilities c') =
               take (numAxes c) (axisCapabilities c)
               @ map (\<lambda>a. \<lparr>type = a, supportsForceFeedback = (a \<in> F)\<rparr>) axes
           \<and> numButtons c' = numButtons c \<and> hasPov c' = hasPov c"
  using assms
proof (induction axes arbitrary: c)
  case Nil
  then show ?case by (simp add: append_axes_def)
next
  case (Cons a axes)
  let ?new = "\<lparr>type = a, supportsForceFeedback = (a \<in> F)\<rparr>"
  let ?c1 = "c\<lparr>axisCapabilities := (axisCapabilities c)[numAxes c := ?new],
               numAxes := numAxes c + 1\<rparr>"
  from Cons.prems have room: "numAxes c < length (axisCapabilities c)" by simp
  from Cons.prems have small: "numAxes c + 1 < 8" by simp
  have step: "AppendAxis ?new c = Some ?c1"
    using room small by (simp add: AppendAxis_def)
  have unfold: "append_axes (a # axes) F c = append_axes axes F ?c1"
    by (simp add: append_axes_def step)
  have pre1: "numAxes ?c1 + length axes \<le> length (axisCapabilities ?c1)"
    using Cons.prems by simp
  have pre2: "length (axisCapabilities ?c1) \<le> 7"
    using Cons.prems by simp
  from Cons.IH [OF pre1 pre2] obtain c' where c':
    "append_axes axes F ?c1 = Some c'"
    "numAxes c' = numAxes ?c1 + length axes"
    "length (axisCapabilities c') = length (axisCapabilities ?c1)"
    "take (numAxes c') (axisCapabilities c') =
       take (numAxes ?c1) (axisCapabilities ?c1)
       @ map (\<lambda>a. \<lparr>type = a, supportsForceFeedback = (a \<in> F)\<rparr>) axes"
    "numButtons c' = numButtons ?c1" "hasPov c' = hasPov ?c1"
    by blast
  have tk: "take (numAxes ?c1) (axisCapabilities ?c1) = take (numAxes c) (axisCapabilities c) @ [?new]"
    using room by (simp add: take_Suc_conv_app_nth)
  show ?case
    using c' tk by (simp add: unfold)
qed

lemma append_axes_zero:
  assumes "length axes \<le> 6"
  shows "\<exists>c'. append_axes axes F SCapabilities_zero = Some c'
           \<and> capability_axes c' = map (\<lambda>a. \<lparr>type = a, supportsForceFeedback = (a \<in> F)\<rparr>) axes"
proof -
  have "numAxes SCapabilities_zero + length axes \<le> length (axisCapabilities SCapabilities_zero)"
    using assms by (simp add: SCapabilities_zero_def EAxis_Count_def)
  moreover have "length (axisCapabilities SCapabilities_zero) \<le> 7"
    by (simp add: SCapabilities_zero_def EAxis_Count_def)
  ultimately obtain c' where
    "append_axes axes F SCapabilities_zero = Some c'"
    "take (numAxes c') (axisCapabilities c') =
       take (numAxes SCapabilities_zero) (axisCapabilities SCapabilities_zero)
       @ map (\<lambda>a. \<lparr>type = a, supportsForceFeedback = (a \<in> F)\<rparr>) axes"
    using append_axes_run [of SCapabilities_zero axes F] by blast
  then show ?thesis
    by (simp add: capability_axes_def SCapabilities_zero_def)
qed

lemma BitSetEnum_EAxis_elements_length: "length (BitSetEnum_EAxis_elements s) \<le> 6"
proof -
  have "length (filter (\<lambda>a. a \<in> s) EAxis_values) \<le> length EAxis_values"
    by (rule length_filter_le)
  then show ?thesis
    by (simp add: BitSetEnum_EAxis_elements_def EAxis_values_def)
qed

text \<open>The derivation in closed form.\<close>

lemma DeriveCapabilitiesFromElementMap_closed:
  assumes ots_def: "ots = concat (map mapper_targets (SElementMap_all elements))"
    and P_def: "P = kRequiredAxes constants \<union> {a. Some (Element_Axis a) \<in> set ots}
                 \<union> bound_axes forceFeedbackActuators"
    and F_def: "F = kRequiredForceFeedbackAxes constants \<union> bound_axes forceFeedbackActuators"
  shows "\<exists>caps. DeriveCapabilitiesFromElementMap constants elements forceFeedbackActuators = Some caps
           \<and> capability_axes caps =
               map (\<lambda>a. \<lparr>type = a, supportsForceFeedback = (a \<in> F)\<rparr>) (BitSetEnum_EAxis_elements P)
           \<and> numButtons caps = nat ((fold max (buttons_in ots) (kMinNumButtons constants - 1) + 1) mod 32)
           \<and> hasPov caps = (kIsPovRequired constants \<or> Some Element_Pov \<in> set ots)"
proof -
  have scan1: "fold scan_element_mapper (SElementMap_all elements)
        (kRequiredAxes constants, kMinNumButtons constants - 1, kIsPovRequired constants) =
      (kRequiredAxes constants \<union> {a. Some (Element_Axis a) \<in> set ots},
       fold max (buttons_in ots) (kMinNumButtons constants - 1),
       kIsPovRequired constants \<or> Some Element_Pov \<in> set ots)"
    by (simp only: fold_scan_element_mapper fold_note_target ots_def)
  have scan2: "fold scan_actuator (SForceFeedbackActuatorMap_all forceFeedbackActuators)
        (kRequiredAxes constants \<union> {a. Some (Element_Axis a) \<in> set ots},
         kRequiredForceFeedbackAxes constants) = (P, F)"
    by (simp only: fold_scan_actuator P_def F_def bound_axes_def)
  obtain c' where c': "append_axes (BitSetEnum_EAxis_elements P) F SCapabilities_zero = Some c'"
    "capability_axes c' =
       map (\<lambda>a. \<lparr>type = a, supportsForceFeedback = (a \<in> F)\<rparr>) (BitSetEnum_EAxis_elements P)"
    using append_axes_zero [OF BitSetEnum_EAxis_elements_length] by blast
  have "DeriveCapabilitiesFromElementMap constants elements forceFeedbackActuators =
      Some (c'\<lparr>numButtons := nat ((fold max (buttons_in ots) (kMinNumButtons constants - 1) + 1) mod 32),
               hasPov := (kIsPovRequired constants \<or> Some Element_Pov \<in> set ots)\<rparr>)"
    by (simp add: DeriveCapabilitiesFromElementMap_def scan1 scan2 c'(1))
  then show ?thesis
    using c'(2) by (simp add: capability_axes_def)
qed









text \<open>
  C2. Capability derivation is total and deterministic: for every element-mapper table
  and actuator table it returns capabilities (the appending loop never writes past the
  axis array), equal tables give equal capabilities, and the table with every element
  mapper and every actuator absent gives the minimal capabilities: the mandated axes in
  ascending order, flagged as the mandated force-feedback axes say, the mandated minimum
  button count, and the mandated POV presence.
\<close>

theorem DeriveCapabilities_total_deterministic:
  assumes "0 \<le> kMinNumButtons constants" and "kMinNumButtons constants \<le> 31"
  shows "(\<exists>caps. DeriveCapabilitiesFromElementMap constants elements forceFeedbackActuators = Some caps)
     \<and> (elements' = elements \<and> forceFeedbackActuators' = forceFeedbackActuators \<longrightarrow>
          DeriveCapabilitiesFromElementMap constants elements' forceFeedbackActuators' =
          DeriveCapabilitiesFromElementMap constants elements forceFeedbackActuators)
     \<and> ((\<forall>actuator \<in> set (SForceFeedbackActuatorMap_all absentActuators). \<not> isPresent actuator) \<longrightarrow>
          (\<exists>caps. DeriveCapabilitiesFromElementMap constants SElementMap_empty absentActuators = Some caps
             \<and> capability_axes caps =
                 map (\<lambda>a. \<lparr>type = a,
                            supportsForceFeedback = (a \<in> kRequiredForceFeedbackAxes constants)\<rparr>)
                   (filter (\<lambda>a. a \<in> kRequiredAxes constants) EAxis_values)
             \<and> int (numButtons caps) = kMinNumButtons constants
             \<and> hasPov caps = kIsPovRequired constants))"
proof (intro conjI impI)
  show "\<exists>caps. DeriveCapabilitiesFromElementMap constants elements forceFeedbackActuators = Some caps"
    using DeriveCapabilitiesFromElementMap_closed [OF refl refl refl] by blast
  show "DeriveCapabilitiesFromElementMap constants elements' forceFeedbackActuators' =
          DeriveCapabilitiesFromElementMap constants elements forceFeedbackActuators"
    if "elements' = elements \<and> forceFeedbackActuators' = forceFeedbackActuators"
    using that by simp
  show "\<exists>caps. DeriveCapabilitiesFromElementMap constants SElementMap_empty absentActuators = Some caps
             \<and> capability_axes caps =
                 map (\<lambda>a. \<lparr>type = a,
                            supportsForceFeedback = (a \<in> kRequiredForceFeedbackAxes constants)\<rparr>)
                   (filter (\<lambda>a. a \<in> kRequiredAxes constants) EAxis_values)
             \<and> int (numButtons caps) = kMinNumButtons constants
             \<and> hasPov caps = kIsPovRequired constants"
    if absent: "\<forall>actuator \<in> set (SForceFeedbackActuatorMap_all absentActuators). \<not> isPresent actuator"
  proof -
    have ots: "concat (map mapper_targets (SElementMap_all SElementMap_empty)) = []"
      by (simp add: SElementMap_all_def SElementMap_empty_def mapper_targets_def)
    have bound: "bound_axes absentActuators = {}"
      using absent by (simp add: bound_axes_def actuator_axes_def)
    obtain caps where caps:
      "DeriveCapabilitiesFromElementMap constants SElementMap_empty absentActuators = Some caps"
      "capability_axes caps =
         map (\<lambda>a. \<lparr>type = a, supportsForceFeedback =
                      (a \<in> kRequiredForceFeedbackAxes constants \<union> bound_axes absentActuators)\<rparr>)
           (BitSetEnum_EAxis_elements
              (kRequiredAxes constants
               \<union> {a. Some (Element_Axis a)
                        \<in> set (concat (map mapper_targets (SElementMap_all SElementMap_empty)))}
               \<union> bound_axes absentActuators))"
      "numButtons caps =
         nat ((fold max (buttons_in (concat (map mapper_targets (SElementMap_all SElementMap_empty))))
                 (kMinNumButtons constants - 1) + 1) mod 32)"
      "hasPov caps =
         (kIsPovRequired constants
          \<or> Some Element_Pov \<in> set (concat (map mapper_targets (SElementMap_all SElementMap_empty))))"
      using DeriveCapabilitiesFromElementMap_closed [OF refl refl refl] by blast
    have axes: "capability_axes caps =
        map (\<lambda>a. \<lparr>type = a,
                   supportsForceFeedback = (a \<in> kRequiredForceFeedbackAxes constants)\<rparr>)
          (filter (\<lambda>a. a \<in> kRequiredAxes constants) EAxis_values)"
      by (simp add: caps(2) ots bound BitSetEnum_EAxis_elements_def)
    have buttons: "int (numButtons caps) = kMinNumButtons constants"
      using assms by (simp add: caps(3) ots buttons_in_simps)
    have pov: "hasPov caps = kIsPovRequired constants"
      by (simp add: caps(4) ots)
    from caps(1) axes buttons pov show ?thesis by blast
  qed
qed




theorem DeriveCapabilities_total_deterministic_witness:
  "\<exists>caps. DeriveCapabilitiesFromElementMap sample_constants SElementMap_empty
              SForceFeedbackActuatorMap_absent = Some caps
     \<and> capability_axes caps =
         [\<lparr>type = EAxis_X, supportsForceFeedback = False\<rparr>,
          \<lparr>type = EAxis_Y, supportsForceFeedback = False\<rparr>]
     \<and> int (numButtons caps) = 2
     \<and> \<not> hasPov caps"
proof -
  have lo: "0 \<le> kMinNumButtons sample_constants"
    and hi: "kMinNumButtons sample_constants \<le> 31"
    by (simp_all add: sample_constants_def)
  have absent: "\<forall>actuator \<in> set (SForceFeedbackActuatorMap_all SForceFeedbackActuatorMap_absent).
      \<not> isPresent actuator"
    by (simp add: SForceFeedbackActuatorMap_all_def SForceFeedbackActuatorMap_absent_def
        SActuatorElement_absent_def)
  from DeriveCapabilities_total_deterministic [OF lo hi,
      of sample_elements sample_actuators sample_elements sample_actuators
         SForceFeedbackActuatorMap_absent]
    absent
  obtain caps where
    "DeriveCapabilitiesFromElementMap sample_constants SElementMap_empty
       SForceFeedbackActuatorMap_absent = Some caps"
    "capability_axes caps =
       map (\<lambda>a. \<lparr>type = a,
                  supportsForceFeedback = (a \<in> kRequiredForceFeedbackAxes sample_constants)\<rparr>)
         (filter (\<lambda>a. a \<in> kRequiredAxes sample_constants) EAxis_values)"
    "int (numButtons caps) = kMinNumButtons sample_constants"
    "hasPov caps = kIsPovRequired sample_constants"
    by blast
  then show ?thesis
    by (intro exI [of _ caps]) (simp add: sample_constants_def EAxis_values_def)
qed

section \<open>Properties of the force-feedback translation\<close>



lemma lround_mono: "x \<le> y \<Longrightarrow> lround x \<le> lround y"
proof -
  assume xy: "x \<le> y"
  consider "0 \<le> x" | "x < 0" "0 \<le> y" | "x < 0" "y < 0" by linarith
  then show ?thesis
  proof cases
    case 1
    with xy have "0 \<le> y" by simp
    with 1 xy show ?thesis by (simp add: lround_def floor_mono)
  next
    case 2
    have "\<lceil>x - 1 / 2\<rceil> \<le> 0" using 2(1) by (simp add: ceiling_le_iff)
    moreover have "0 \<le> \<lfloor>y + 1 / 2\<rfloor>" using 2(2) by simp
    ultimately have "\<lceil>x - 1 / 2\<rceil> \<le> \<lfloor>y + 1 / 2\<rfloor>" by linarith
    with 2 show ?thesis by (simp add: lround_def)
  next
    case 3
    with xy show ?thesis by (simp add: lround_def ceiling_mono)
  qed
qed

lemma lround_nonneg: "0 \<le> x \<Longrightarrow> 0 \<le> lround x"
  by (simp add: lround_def)

lemma lround_of_int: "lround (of_int n) = n"
  by (simp add: lround_def) linarith

lemma unat_word16_of_int:
  "0 \<le> n \<Longrightarrow> n \<le> 65535 \<Longrightarrow> unat (word_of_int n :: uint16_t) = nat n"
  by (simp add: unat_eq_nat_uint uint_word_of_int take_bit_int_eq_self)

lemma PhysicalActuatorStrength_unwrapped:
  assumes "kEffectForceMagnitudeZero k = 0"
  shows "PhysicalActuatorStrength k gain raw = word_of_int (unwrapped_level k gain raw)"
  using assms
  by (simp add: PhysicalActuatorStrength_def unwrapped_level_def virtual_strength_def
      kVirtualMagnitudeRange_def Let_def)

lemma rounding_function_mono: "rounding_function rnd \<Longrightarrow> x \<le> y \<Longrightarrow> rnd x \<le> rnd y"
  by (simp add: rounding_function_def)

lemma rounding_function_nonneg: "rounding_function rnd \<Longrightarrow> 0 \<le> x \<Longrightarrow> 0 \<le> rnd x"
  using rounding_function_mono [of rnd 0 x] by (simp add: rounding_function_def)

lemma rounding_function_le_one: "rounding_function rnd \<Longrightarrow> x \<le> 1 \<Longrightarrow> rnd x \<le> 1"
  using rounding_function_mono [of rnd x 1] by (simp add: rounding_function_def)

lemma rounding_function_idem: "rounding_function rnd \<Longrightarrow> rnd (rnd x) = rnd x"
  by (simp add: rounding_function_def)

text \<open>Facts about the constants and the gain multiplier, in their nominal ranges.\<close>

lemma force_feedback_ranges:
  assumes "kEffectForceMagnitudeZero k = 0" and "0 < kEffectForceMagnitudeMaximum k"
    and "0 < kEffectModifierMaximum k" and "rounding_function (roundEffectValue k)"
    and "0 \<le> gain" and "gain \<le> kEffectModifierMaximum k"
  shows "kVirtualMagnitudeRange k = roundEffectValue k (kEffectForceMagnitudeMaximum k)"
    and "0 \<le> kVirtualMagnitudeRange k"
    and "roundEffectValue k (kVirtualMagnitudeRange k) = kVirtualMagnitudeRange k"
    and "0 \<le> kScalingFactor k"
    and "0 \<le> roundEffectValue k (gain / kEffectModifierMaximum k)"
    and "roundEffectValue k (gain / kEffectModifierMaximum k) \<le> 1"
proof -
  note rf = assms(4)
  note nonneg = rounding_function_nonneg [OF rf]
  note mono = rounding_function_mono [OF rf]
  show M: "kVirtualMagnitudeRange k = roundEffectValue k (kEffectForceMagnitudeMaximum k)"
    using assms(1) by (simp add: kVirtualMagnitudeRange_def)
  show M0: "0 \<le> kVirtualMagnitudeRange k"
    unfolding M using assms(2) by (intro nonneg) simp
  show "roundEffectValue k (kVirtualMagnitudeRange k) = kVirtualMagnitudeRange k"
    unfolding M using rf by (rule rounding_function_idem)
  have "0 \<le> kPhysicalActuatorRange k"
    unfolding kPhysicalActuatorRange_def by (intro nonneg) simp
  then have "0 \<le> kPhysicalActuatorRange k / kVirtualMagnitudeRange k"
    using M0 by (rule divide_nonneg_nonneg)
  then show "0 \<le> kScalingFactor k"
    unfolding kScalingFactor_def by (rule nonneg)
  have "0 \<le> gain / kEffectModifierMaximum k"
    using assms(3,5) by simp
  then show "0 \<le> roundEffectValue k (gain / kEffectModifierMaximum k)"
    by (rule nonneg)
  have "gain / kEffectModifierMaximum k \<le> 1"
    using assms(3,6) by simp
  then show "roundEffectValue k (gain / kEffectModifierMaximum k) \<le> 1"
    by (rule rounding_function_le_one [OF rf])
qed

lemma virtual_strength_ranges:
  assumes "kEffectForceMagnitudeZero k = 0" and "0 < kEffectForceMagnitudeMaximum k"
    and "0 < kEffectModifierMaximum k" and "rounding_function (roundEffectValue k)"
    and "0 \<le> gain" and "gain \<le> kEffectModifierMaximum k"
  shows "0 \<le> virtual_strength k gain raw"
    and "virtual_strength k gain raw \<le> kVirtualMagnitudeRange k"
    and "virtual_strength k gain raw
           \<le> virtual_strength k gain (kEffectForceMagnitudeMaximum k)"
    and "0 \<le> x \<Longrightarrow> x \<le> y \<Longrightarrow> virtual_strength k gain x \<le> virtual_strength k gain y"
    and "kEffectForceMagnitudeMaximum k \<le> x \<Longrightarrow>
           virtual_strength k gain x = virtual_strength k gain (kEffectForceMagnitudeMaximum k)"
proof -
  let ?rnd = "roundEffectValue k"
  let ?M = "kVirtualMagnitudeRange k"
  let ?g = "?rnd (gain / kEffectModifierMaximum k)"
  note rf = assms(4)
  note nonneg = rounding_function_nonneg [OF rf]
  note mono = rounding_function_mono [OF rf]
  note ranges = force_feedback_ranges [OF assms]
  have M: "?M = ?rnd (kEffectForceMagnitudeMaximum k)" by (rule ranges(1))
  have M0: "0 \<le> ?M" by (rule ranges(2))
  have g0: "0 \<le> ?g" by (rule ranges(5))
  have g1: "?g \<le> 1" by (rule ranges(6))
  have top0: "0 \<le> ?rnd (?M * ?g)"
    by (rule nonneg) (rule mult_nonneg_nonneg [OF M0 g0])
  have other0: "0 \<le> ?rnd (?g * \<bar>?rnd v\<bar>)" for v
    by (rule nonneg) (rule mult_nonneg_nonneg [OF g0 abs_ge_zero])
  show "0 \<le> virtual_strength k gain raw"
    unfolding virtual_strength_def using top0 other0 by (rule min.boundedI)
  have "?M * ?g \<le> ?M * 1"
    using g1 M0 by (rule mult_left_mono)
  then have "?rnd (?M * ?g) \<le> ?rnd (?M * 1)"
    by (rule mono)
  then have top_le: "?rnd (?M * ?g) \<le> ?M"
    by (simp add: ranges(3))
  have "virtual_strength k gain raw \<le> ?rnd (?M * ?g)"
    unfolding virtual_strength_def by (rule min.cobounded1)
  with top_le show "virtual_strength k gain raw \<le> ?M"
    by linarith
  have saturated: "virtual_strength k gain x = ?rnd (?M * ?g)"
    if "kEffectForceMagnitudeMaximum k \<le> x" for x
  proof -
    have "?M \<le> ?rnd x"
      unfolding M using that by (rule mono)
    with M0 have "?M \<le> \<bar>?rnd x\<bar>" by simp
    then have "?g * ?M \<le> ?g * \<bar>?rnd x\<bar>"
      using g0 by (rule mult_left_mono)
    then have "?M * ?g \<le> ?g * \<bar>?rnd x\<bar>"
      by (simp only: mult.commute [of ?M ?g])
    then have "?rnd (?M * ?g) \<le> ?rnd (?g * \<bar>?rnd x\<bar>)"
      by (rule mono)
    then show ?thesis
      unfolding virtual_strength_def by (rule min.absorb1)
  qed
  have at_max: "virtual_strength k gain (kEffectForceMagnitudeMaximum k) = ?rnd (?M * ?g)"
    by (rule saturated) simp
  show "virtual_strength k gain raw \<le> virtual_strength k gain (kEffectForceMagnitudeMaximum k)"
    unfolding at_max unfolding virtual_strength_def by (rule min.cobounded1)
  show "virtual_strength k gain x \<le> virtual_strength k gain y" if "0 \<le> x" and "x \<le> y" for x y
  proof -
    have "0 \<le> ?rnd x"
      using that(1) by (rule nonneg)
    moreover have "?rnd x \<le> ?rnd y"
      using that(2) by (rule mono)
    ultimately have "\<bar>?rnd x\<bar> \<le> \<bar>?rnd y\<bar>" by simp
    then have "?g * \<bar>?rnd x\<bar> \<le> ?g * \<bar>?rnd y\<bar>"
      using g0 by (rule mult_left_mono)
    then have "?rnd (?g * \<bar>?rnd x\<bar>) \<le> ?rnd (?g * \<bar>?rnd y\<bar>)"
      by (rule mono)
    then show ?thesis
      unfolding virtual_strength_def by (intro min.mono order_refl)
  qed
  show "virtual_strength k gain x = virtual_strength k gain (kEffectForceMagnitudeMaximum k)"
    if "kEffectForceMagnitudeMaximum k \<le> x" for x
    using saturated [OF that] at_max by simp
qed

lemma unwrapped_level_mono:
  assumes "rounding_function (roundEffectValue k)" and "0 \<le> kScalingFactor k"
    and "virtual_strength k gain x \<le> virtual_strength k gain y"
  shows "unwrapped_level k gain x \<le> unwrapped_level k gain y"
proof -
  have "virtual_strength k gain x * kScalingFactor k \<le> virtual_strength k gain y * kScalingFactor k"
    using assms(3,2) by (rule mult_right_mono)
  then have "roundEffectValue k (virtual_strength k gain x * kScalingFactor k)
      \<le> roundEffectValue k (virtual_strength k gain y * kScalingFactor k)"
    by (rule rounding_function_mono [OF assms(1)])
  then show ?thesis
    unfolding unwrapped_level_def by (rule lround_mono)
qed

lemma unwrapped_level_fits:
  assumes "kEffectForceMagnitudeZero k = 0" and "0 < kEffectForceMagnitudeMaximum k"
    and "0 < kEffectModifierMaximum k" and "rounding_function (roundEffectValue k)"
    and "0 \<le> gain" and "gain \<le> kEffectModifierMaximum k"
    and "lround (roundEffectValue k (kVirtualMagnitudeRange k * kScalingFactor k)) \<le> 65535"
  shows "0 \<le> unwrapped_level k gain raw" and "unwrapped_level k gain raw \<le> 65535"
proof -
  note rf = assms(4)
  note nonneg = rounding_function_nonneg [OF rf]
  note mono = rounding_function_mono [OF rf]
  note ranges = force_feedback_ranges [OF assms(1-6)]
  note vs = virtual_strength_ranges [OF assms(1-6)]
  have "0 \<le> virtual_strength k gain raw * kScalingFactor k"
    using vs(1) ranges(4) by (rule mult_nonneg_nonneg)
  then have "0 \<le> roundEffectValue k (virtual_strength k gain raw * kScalingFactor k)"
    by (rule nonneg)
  then show "0 \<le> unwrapped_level k gain raw"
    unfolding unwrapped_level_def by (rule lround_nonneg)
  have "virtual_strength k gain raw * kScalingFactor k
      \<le> kVirtualMagnitudeRange k * kScalingFactor k"
    using vs(2) ranges(4) by (rule mult_right_mono)
  then have "roundEffectValue k (virtual_strength k gain raw * kScalingFactor k)
      \<le> roundEffectValue k (kVirtualMagnitudeRange k * kScalingFactor k)"
    by (rule mono)
  then have "unwrapped_level k gain raw
      \<le> lround (roundEffectValue k (kVirtualMagnitudeRange k * kScalingFactor k))"
    unfolding unwrapped_level_def by (rule lround_mono)
  with assms(7) show "unwrapped_level k gain raw \<le> 65535"
    by linarith
qed



lemma positive_actuator_value:
  assumes "kEffectForceMagnitudeZero k = 0"
    and "isPresent actuator" and "mode actuator = EActuatorMode_SingleAxis"
    and "singleAxis_direction actuator = EAxisDirection_Positive"
  shows "ForceFeedbackActuatorValue k components actuator gain =
     (if components (singleAxis_axis actuator) \<le> 0 then 0
      else word_of_int (unwrapped_level k gain (components (singleAxis_axis actuator))))"
  using assms
  by (auto simp: ForceFeedbackActuatorValue_def Let_def PhysicalActuatorStrength_unwrapped)

text \<open>
  C6 (amended). With the zero force magnitude at 0, positive maxima, a rounding function
  that rounds to the nearest effect value, a full-strength level that fits the unsigned
  16-bit range and a gain between 0 and the maximum gain, a present single-axis actuator
  restricted to the positive direction outputs zero for every negative component on its
  axis; its output does not decrease as a positive component increases; the output never
  exceeds the output at the maximum force magnitude and equals it for every component
  from the maximum force magnitude on.
\<close>

theorem positive_actuator_monotone:
  assumes "kEffectForceMagnitudeZero k = 0"
    and "0 < kEffectForceMagnitudeMaximum k" and "0 < kEffectModifierMaximum k"
    and "rounding_function (roundEffectValue k)"
    and "0 \<le> gain" and "gain \<le> kEffectModifierMaximum k"
    and "lround (roundEffectValue k (kVirtualMagnitudeRange k * kScalingFactor k)) \<le> 65535"
    and "isPresent actuator" and "mode actuator = EActuatorMode_SingleAxis"
    and "singleAxis_direction actuator = EAxisDirection_Positive"
  shows "(components (singleAxis_axis actuator) < 0 \<longrightarrow>
            ForceFeedbackActuatorValue k components actuator gain = 0)
     \<and> (0 < components (singleAxis_axis actuator)
          \<and> components (singleAxis_axis actuator) \<le> components' (singleAxis_axis actuator) \<longrightarrow>
            unat (ForceFeedbackActuatorValue k components actuator gain)
              \<le> unat (ForceFeedbackActuatorValue k components' actuator gain))
     \<and> unat (ForceFeedbackActuatorValue k components actuator gain)
          \<le> unat (ForceFeedbackActuatorValue k
                     (components(singleAxis_axis actuator := kEffectForceMagnitudeMaximum k))
                     actuator gain)
     \<and> (kEffectForceMagnitudeMaximum k \<le> components (singleAxis_axis actuator) \<longrightarrow>
            ForceFeedbackActuatorValue k components actuator gain
              = ForceFeedbackActuatorValue k
                  (components(singleAxis_axis actuator := kEffectForceMagnitudeMaximum k))
                  actuator gain)"
proof (intro conjI impI)
  let ?a = "singleAxis_axis actuator"
  let ?top = "components(?a := kEffectForceMagnitudeMaximum k)"
  note val_eq = positive_actuator_value [OF assms(1) assms(8-10)]
  note ranges = force_feedback_ranges [OF assms(1-6)]
  note vs = virtual_strength_ranges [OF assms(1-6)]
  note fits = unwrapped_level_fits [OF assms(1-7)]
  have unat_eq: "unat (word_of_int (unwrapped_level k gain raw) :: uint16_t) =
      nat (unwrapped_level k gain raw)" for raw
    using fits [of raw] by (rule unat_word16_of_int)
  have top_val: "ForceFeedbackActuatorValue k ?top actuator gain =
      word_of_int (unwrapped_level k gain (kEffectForceMagnitudeMaximum k))"
    using assms(2) by (simp add: val_eq)
  show "ForceFeedbackActuatorValue k components actuator gain = 0" if "components ?a < 0"
    using that by (simp add: val_eq)
  show "unat (ForceFeedbackActuatorValue k components actuator gain)
          \<le> unat (ForceFeedbackActuatorValue k components' actuator gain)"
    if "0 < components ?a \<and> components ?a \<le> components' ?a"
  proof -
    from that have pos: "0 < components ?a" "0 < components' ?a"
      and le: "0 \<le> components ?a" "components ?a \<le> components' ?a" by simp_all
    have "unwrapped_level k gain (components ?a) \<le> unwrapped_level k gain (components' ?a)"
      using assms(4) ranges(4) vs(4) [OF le] by (rule unwrapped_level_mono)
    then show ?thesis
      using pos by (simp add: val_eq unat_eq)
  qed
  show "unat (ForceFeedbackActuatorValue k components actuator gain)
          \<le> unat (ForceFeedbackActuatorValue k ?top actuator gain)"
  proof (cases "components ?a \<le> 0")
    case True
    then show ?thesis by (simp add: val_eq)
  next
    case False
    have "unwrapped_level k gain (components ?a)
        \<le> unwrapped_level k gain (kEffectForceMagnitudeMaximum k)"
      using assms(4) ranges(4) vs(3) by (rule unwrapped_level_mono)
    then have le: "nat (unwrapped_level k gain (components ?a))
        \<le> nat (unwrapped_level k gain (kEffectForceMagnitudeMaximum k))"
      by simp
    have lhs: "ForceFeedbackActuatorValue k components actuator gain =
        word_of_int (unwrapped_level k gain (components ?a))"
      using False by (simp add: val_eq)
    show ?thesis
      unfolding lhs top_val unat_eq by (rule le)
  qed
  show "ForceFeedbackActuatorValue k components actuator gain
          = ForceFeedbackActuatorValue k ?top actuator gain"
    if "kEffectForceMagnitudeMaximum k \<le> components ?a"
  proof -
    from that assms(2) have pos: "\<not> components ?a \<le> 0" by simp
    have eq: "unwrapped_level k gain (components ?a)
        = unwrapped_level k gain (kEffectForceMagnitudeMaximum k)"
      unfolding unwrapped_level_def by (simp only: vs(5) [OF that])
    have lhs: "ForceFeedbackActuatorValue k components actuator gain =
        word_of_int (unwrapped_level k gain (components ?a))"
      using pos by (simp add: val_eq)
    show ?thesis
      unfolding lhs top_val by (simp only: eq)
  qed
qed

theorem positive_actuator_monotone_witness:
  "ForceFeedbackActuatorValue sample_ff_constants (x_component (- 5)) positive_x_actuator 10000 = 0
   \<and> unat (ForceFeedbackActuatorValue sample_ff_constants (x_component 5000) positive_x_actuator 10000)
       \<le> unat (ForceFeedbackActuatorValue sample_ff_constants (x_component 10000) positive_x_actuator 10000)
   \<and> ForceFeedbackActuatorValue sample_ff_constants (x_component 12000) positive_x_actuator 10000
       = ForceFeedbackActuatorValue sample_ff_constants (x_component 10000) positive_x_actuator 10000"
proof -
  have c: "kEffectForceMagnitudeZero sample_ff_constants = 0"
    "0 < kEffectForceMagnitudeMaximum sample_ff_constants"
    "0 < kEffectModifierMaximum sample_ff_constants"
    "rounding_function (roundEffectValue sample_ff_constants)"
    "(0::real) \<le> 10000" "10000 \<le> kEffectModifierMaximum sample_ff_constants"
    by (simp_all add: sample_ff_constants_def rounding_function_def)
  have full: "lround (roundEffectValue sample_ff_constants
      (kVirtualMagnitudeRange sample_ff_constants * kScalingFactor sample_ff_constants)) \<le> 65535"
    by (simp add: sample_ff_constants_def kVirtualMagnitudeRange_def kScalingFactor_def
        kPhysicalActuatorRange_def lround_def)
  have a: "isPresent positive_x_actuator"
    "mode positive_x_actuator = EActuatorMode_SingleAxis"
    "singleAxis_direction positive_x_actuator = EAxisDirection_Positive"
    and axis: "singleAxis_axis positive_x_actuator = EAxis_X"
    by (simp_all add: positive_x_actuator_def SActuatorElement_absent_def)
  have neg: "x_component (- 5) (singleAxis_axis positive_x_actuator) < 0"
    by (simp add: axis x_component_def)
  have incr: "0 < x_component 5000 (singleAxis_axis positive_x_actuator)
      \<and> x_component 5000 (singleAxis_axis positive_x_actuator)
          \<le> x_component 10000 (singleAxis_axis positive_x_actuator)"
    by (simp add: axis x_component_def)
  have sat: "kEffectForceMagnitudeMaximum sample_ff_constants
      \<le> x_component 12000 (singleAxis_axis positive_x_actuator)"
    by (simp add: axis x_component_def sample_ff_constants_def)
  have top: "(x_component 12000)
      (singleAxis_axis positive_x_actuator := kEffectForceMagnitudeMaximum sample_ff_constants)
      = x_component 10000"
    by (simp add: axis x_component_def sample_ff_constants_def)
  note th1 = positive_actuator_monotone [OF c full a, of "x_component (- 5)" "x_component (- 5)"]
  note th2 = positive_actuator_monotone [OF c full a, of "x_component 5000" "x_component 10000"]
  note th3 = positive_actuator_monotone [OF c full a, of "x_component 12000" "x_component 12000"]
  from th1 [THEN conjunct1, THEN mp, OF neg]
       th2 [THEN conjunct2, THEN conjunct1, THEN mp, OF incr]
       th3 [THEN conjunct2, THEN conjunct2, THEN conjunct2, THEN mp, OF sat] top
  show ?thesis by simp
qed

text \<open>
  C6 as stated, for every gain, fails: at twice the maximum gain the rounded strength
  exceeds the 16-bit range and wraps, so the output for the component 10000 is below
  the output for the component 5000. The sample constants compute with exact arithmetic;
  rounding every operation to single precision gives the same two outputs.
\<close>

theorem positive_actuator_gain_counterexample:
  "unat (ForceFeedbackActuatorValue sample_ff_constants (x_component 5000) positive_x_actuator 20000)
     = 65535
   \<and> unat (ForceFeedbackActuatorValue sample_ff_constants (x_component 10000) positive_x_actuator 20000)
     = 65534"
  by (simp add: ForceFeedbackActuatorValue_def PhysicalActuatorStrength_def
      kScalingFactor_def kPhysicalActuatorRange_def kVirtualMagnitudeRange_def
      sample_ff_constants_def positive_x_actuator_def SActuatorElement_absent_def
      x_component_def lround_def Let_def)

section \<open>Properties of the mapper builder\<close>

lemma map_of_mark_attempted_same:
  "map_of bps name = Some bp \<Longrightarrow>
   map_of (mark_attempted name bps) name = Some (bp\<lparr>buildAttempted := True\<rparr>)"
  by (induction bps) (auto split: if_splits)

lemma map_of_mark_attempted_other:
  "other \<noteq> name \<Longrightarrow> map_of (mark_attempted name bps) other = map_of bps other"
  by (induction bps) auto

text \<open>
  C7. If blueprint \<open>A\<close> names \<open>B\<close> as its template and blueprint \<open>B\<close> names \<open>A\<close>,
  neither build has been attempted and neither name is a mapper yet, then
  \<^verbatim>\<open>Build(A)\<close> fails and leaves the registry as it was: neither \<open>A\<close> nor \<open>B\<close> is
  registered afterwards.
\<close>

theorem Build_cycle_fails:
  assumes "map_of (blueprints b) A = Some blueprintA" and "templateName blueprintA = B"
    and "\<not> buildAttempted blueprintA"
    and "map_of (blueprints b) B = Some blueprintB" and "templateName blueprintB = A"
    and "\<not> buildAttempted blueprintB"
    and "A \<noteq> []" and "B \<noteq> []"
    and "knownMappers (registry b) A = None" and "knownMappers (registry b) B = None"
  shows "fst (Build A b) = None
     \<and> registry (snd (Build A b)) = registry b
     \<and> GetMapper (registry (snd (Build A b))) A = None
     \<and> GetMapper (registry (snd (Build A b))) B = None"
proof -
  let ?b1 = "b\<lparr>blueprints := mark_attempted A (blueprints b)\<rparr>"
  let ?b2 = "?b1\<lparr>blueprints := mark_attempted B (blueprints ?b1)\<rparr>"
  have A1: "map_of (blueprints ?b1) A = Some (blueprintA\<lparr>buildAttempted := True\<rparr>)"
    using assms(1) by (simp add: map_of_mark_attempted_same)
  have failed: "\<exists>b'. Build A b = (None, b') \<and> registry b' = registry b"
  proof (cases "A = B")
    case True
    have inner: "Build B ?b1 = (None, ?b1)"
      using A1 assms(9) True by (subst Build.simps) simp
    have "Build A b = (None, ?b1)"
      using assms True inner by (subst Build.simps) simp
    then show ?thesis by simp
  next
    case False
    have B1: "map_of (blueprints ?b1) B = Some blueprintB"
      using assms(4) False by (simp add: map_of_mark_attempted_other)
    have A2: "map_of (blueprints ?b2) A = Some (blueprintA\<lparr>buildAttempted := True\<rparr>)"
      using A1 False by (simp add: map_of_mark_attempted_other)
    have innermost: "Build A ?b2 = (None, ?b2)"
      using A2 assms(9) by (subst Build.simps) simp
    have inner: "Build B ?b1 = (None, ?b2)"
      using B1 A1 assms(5-10) innermost by (subst Build.simps) simp
    have "Build A b = (None, ?b2)"
      using assms inner by (subst Build.simps) simp
    then show ?thesis by simp
  qed
  then obtain b' where b': "Build A b = (None, b')" "registry b' = registry b"
    by blast
  show ?thesis
    using assms(7-10) by (simp add: b' GetMapper_def)
qed

theorem Build_cycle_fails_witness:
  "fst (Build ''A'' cyclic_builder) = None
   \<and> GetMapper (registry (snd (Build ''A'' cyclic_builder))) ''A'' = None
   \<and> GetMapper (registry (snd (Build ''A'' cyclic_builder))) ''B'' = None"
proof -
  have a: "map_of (blueprints cyclic_builder) ''A'' =
      Some \<lparr>templateName = ''B'', changesFromTemplate = [], buildAttempted = False\<rparr>"
    by (simp add: cyclic_builder_def)
  have b: "map_of (blueprints cyclic_builder) ''B'' =
      Some \<lparr>templateName = ''A'', changesFromTemplate = [(0, Some 7)], buildAttempted = False\<rparr>"
    by (simp add: cyclic_builder_def)
  have known: "knownMappers (registry cyclic_builder) ''A'' = None"
    "knownMappers (registry cyclic_builder) ''B'' = None"
    by (simp_all add: cyclic_builder_def MapperRegistry_initial_def)
  have th: "fst (Build ''A'' cyclic_builder) = None
     \<and> registry (snd (Build ''A'' cyclic_builder)) = registry cyclic_builder
     \<and> GetMapper (registry (snd (Build ''A'' cyclic_builder))) ''A'' = None
     \<and> GetMapper (registry (snd (Build ''A'' cyclic_builder))) ''B'' = None"
    by (rule Build_cycle_fails [OF a _ _ b _ _ _ _ known]) simp_all
  from th [THEN conjunct1] th [THEN conjunct2, THEN conjunct2]
  show ?thesis by (rule conjI)
qed

end
